theory Spec2Isabelle
  imports Complex_Main
begin

section \<open>Data model\<close>

text \<open>
  The fleet simulator is three JavaScript classes: \<open>DataManager\<close> (the store and its
  write-through persistence), \<open>AIAgent\<close> (the adaptive agent) and \<open>TradingEngine\<close>
  (the scheduler and the decision engine), plus \<open>FleetAIApp.importData\<close>.

  JavaScript numbers are idealised as \<^typ>\<open>real\<close>: decimal literals such as \<open>0.15\<close>
  denote the exact rationals and arithmetic does not round. String-valued fields
  (\<open>status\<close>, \<open>type\<close>, the decision category) stay strings, as in the source.
  \<open>Date.now()\<close> and \<open>new Date().toISOString()\<close> both read the field \<open>clock\<close> of the
  world. The \<open>Math.random()\<close> samples are explicit arguments. DOM rendering
  (\<open>renderBots\<close>, \<open>updateStats\<close>, \<open>renderAIActivity\<close>, \<open>alert\<close> apart) has no effect on
  the state and is left out.
\<close>

record bot =
  bid :: int
  name :: string
  btype :: string
  status :: string
  strategy :: string
  profit :: real
  trades :: real
  successRate :: real
  riskLevel :: real
  performance :: real

record trade =
  t_botId :: int
  t_botName :: string
  t_symbol :: string
  t_type :: string
  t_amount :: real
  t_profit :: real
  t_success :: bool
  t_id :: nat
  t_timestamp :: nat

record decision =
  d_type :: string
  d_message :: string
  d_confidence :: real
  d_id :: nat
  d_timestamp :: nat

record quote =
  q_symbol :: string
  q_price :: real
  q_change :: real
  q_volume :: real
  q_timestamp :: nat

record settings =
  riskManagement :: bool
  autoRebalance :: bool
  maxDrawdown :: real
  dailyTarget :: real

text \<open>The persisted fields of \<open>DataManager\<close>; \<open>marketData\<close> is an object keyed by symbol,
  kept as an association list in key order.\<close>

record store =
  bots :: "bot list"
  tradingHistory :: "trade list"
  aiDecisions :: "decision list"
  marketData :: "(string \<times> quote) list"
  settings :: settings

record tradeDecision =
  td_execute :: bool
  td_type :: string
  td_symbol :: string
  td_amount :: real
  td_confidence :: real

record outcome =
  o_decision :: tradeDecision
  o_profit :: real
  o_timestamp :: nat

record metrics =
  winRate :: real
  avgProfit :: real
  riskAdjustedReturn :: real

record botModel =
  learningRate :: real
  tradeHistory :: "outcome list"
  performanceMetrics :: metrics
  adaptationFactor :: real
  lastOptimization :: "nat option"

text \<open>\<open>marketAnalysis\<close> starts as the empty object \<open>{}\<close> (here \<open>None\<close>).\<close>

record analysis =
  ma_volatility :: real
  ma_trend :: real
  ma_volume :: real
  ma_sentiment :: string
  ma_timestamp :: nat

text \<open>
  One value for everything the three classes hold: the store \<open>dm\<close>, the content of
  \<open>localStorage\<close> under \<open>storageKey\<close>, the clock, the engine's flag and timers (a timer
  field is \<open>True\<close> while an interval is armed), and the agent's fields.
\<close>

record world =
  dm :: store
  localStorage :: "store option"
  clock :: nat
  isRunning :: bool
  tradingInterval :: bool
  marketUpdateInterval :: bool
  monitoringInterval :: bool
  botModels :: "int \<rightharpoonup> botModel"
  marketAnalysis :: "analysis option"
  overallConfidence :: real

datatype error = TypeError string

section \<open>DataManager\<close>

definition saveData :: "world \<Rightarrow> world" where
  "saveData w = w\<lparr>localStorage := Some (dm w)\<rparr>"

text \<open>\<open>Object.assign(bot, updates)\<close> on the first bot that \<open>find\<close> returns: the updates are
  a function that overwrites the assigned fields.\<close>

fun assignFirst :: "int \<Rightarrow> (bot \<Rightarrow> bot) \<Rightarrow> bot list \<Rightarrow> bot list" where
  "assignFirst botId updates [] = []"
| "assignFirst botId updates (b # bs) =
     (if bid b = botId then updates b # bs else b # assignFirst botId updates bs)"

definition updateBot :: "int \<Rightarrow> (bot \<Rightarrow> bot) \<Rightarrow> world \<Rightarrow> bool \<times> world" where
  "updateBot botId updates w =
     (case find (\<lambda>b. bid b = botId) (bots (dm w)) of
        Some b \<Rightarrow>
          (True, saveData (w\<lparr>dm := (dm w)\<lparr>bots := assignFirst botId updates (bots (dm w))\<rparr>\<rparr>))
      | None \<Rightarrow> (False, w))"

definition addTrade :: "trade \<Rightarrow> world \<Rightarrow> world" where
  "addTrade tr w =
     (let h = tr\<lparr>t_id := clock w, t_timestamp := clock w\<rparr> # tradingHistory (dm w);
          h' = (if length h > 1000 then take 1000 h else h)
      in saveData (w\<lparr>dm := (dm w)\<lparr>tradingHistory := h'\<rparr>\<rparr>))"

definition addAIDecision :: "decision \<Rightarrow> world \<Rightarrow> world" where
  "addAIDecision d w =
     (let ds = d\<lparr>d_id := clock w, d_timestamp := clock w\<rparr> # aiDecisions (dm w);
          ds' = (if length ds > 100 then take 100 ds else ds)
      in saveData (w\<lparr>dm := (dm w)\<lparr>aiDecisions := ds'\<rparr>\<rparr>))"

text \<open>A decision as the callers write it, before \<open>addAIDecision\<close> stamps it.\<close>

definition mkDecision :: "string \<Rightarrow> string \<Rightarrow> real \<Rightarrow> decision" where
  "mkDecision ty msg conf =
     \<lparr>d_type = ty, d_message = msg, d_confidence = conf, d_id = 0, d_timestamp = 0\<rparr>"

record perf =
  totalTrades :: nat
  profitableTrades :: nat
  p_successRate :: real
  totalProfit :: real

definition getBotPerformance :: "int \<Rightarrow> world \<Rightarrow> perf" where
  "getBotPerformance botId w =
     (let botTrades = filter (\<lambda>t. t_botId t = botId) (tradingHistory (dm w));
          total = length botTrades;
          profitable = length (filter (\<lambda>t. t_profit t > 0) botTrades);
          totalP = foldl (\<lambda>sum t. sum + t_profit t) 0 botTrades
      in \<lparr>totalTrades = total, profitableTrades = profitable,
          p_successRate = (if total > 0 then (real profitable / real total) * 100 else 0),
          totalProfit = totalP\<rparr>)"

text \<open>\<open>this.dataManager.bots.forEach(f)\<close>: the callback reads the live bot at each index,
  after the updates of the earlier iterations; no callback changes the length.\<close>

definition forEachBot :: "(bot \<Rightarrow> world \<Rightarrow> world) \<Rightarrow> world \<Rightarrow> world" where
  "forEachBot f w = fold (\<lambda>i w'. f (bots (dm w') ! i) w') [0..<length (bots (dm w))] w"

section \<open>AIAgent\<close>

definition newModel :: botModel where
  "newModel = \<lparr>learningRate = 0.1, tradeHistory = [],
     performanceMetrics = \<lparr>winRate = 0, avgProfit = 0, riskAdjustedReturn = 0\<rparr>,
     adaptationFactor = 1.0, lastOptimization = None\<rparr>"

definition initializeBotModels :: "world \<Rightarrow> world" where
  "initializeBotModels w =
     w\<lparr>botModels := fold (\<lambda>b m. m(bid b \<mapsto> newModel)) (bots (dm w)) (botModels w)\<rparr>"

definition calculateMarketSentiment :: "real \<Rightarrow> real \<Rightarrow> string" where
  "calculateMarketSentiment trend volatility =
     (if trend > 0.5 \<and> volatility < 0.03 then ''strong_bull''
      else if trend > 0.2 \<and> volatility < 0.05 then ''bull''
      else if trend < -0.5 \<and> volatility > 0.08 then ''strong_bear''
      else if trend < -0.2 \<and> volatility > 0.05 then ''bear''
      else ''neutral'')"

definition activateAggressiveStrategies :: "world \<Rightarrow> world" where
  "activateAggressiveStrategies w =
     addAIDecision
       (mkDecision ''strategy''
          ''Bull market detected: Activated aggressive trading strategies'' 80)
       (forEachBot
          (\<lambda>bt w'. if status bt = ''active''
             then snd (updateBot (bid bt) (\<lambda>b. b\<lparr>riskLevel := min 0.9 (riskLevel bt + 0.1)\<rparr>) w')
             else w') w)"

definition activateDefensiveStrategies :: "world \<Rightarrow> world" where
  "activateDefensiveStrategies w =
     addAIDecision
       (mkDecision ''strategy''
          ''Bear market detected: Activated defensive trading strategies'' 75)
       (forEachBot
          (\<lambda>bt w'. if status bt = ''active''
             then snd (updateBot (bid bt) (\<lambda>b. b\<lparr>riskLevel := max 0.1 (riskLevel bt - 0.15)\<rparr>) w')
             else w') w)"

definition activateBalancedStrategies :: "world \<Rightarrow> world" where
  "activateBalancedStrategies w =
     addAIDecision
       (mkDecision ''strategy''
          ''Neutral market: Maintaining balanced portfolio allocation'' 70) w"

definition adjustRiskParameters :: "real \<Rightarrow> world \<Rightarrow> world" where
  "adjustRiskParameters adjustment w =
     forEachBot
       (\<lambda>bt w'. if status bt = ''active''
          then snd (updateBot (bid bt)
                 (\<lambda>b. b\<lparr>riskLevel := max 0.1 (min 0.9 (riskLevel bt + adjustment))\<rparr>) w')
          else w') w"

text \<open>
  The class defines no method \<open>activateGrowthStrategies\<close> and no method
  \<open>activateHedgingStrategies\<close>: the calls \<open>this.activateGrowthStrategies()\<close> (case
  \<open>"bull"\<close>) and \<open>this.activateHedgingStrategies()\<close> (case \<open>"strong_bear"\<close>) call
  \<open>undefined\<close>, which throws a TypeError before anything is written. With
  \<open>marketAnalysis = {}\<close> the three destructured fields are \<open>undefined\<close>: the switch
  takes its default and both comparisons with \<open>volatility\<close> are false.
\<close>

definition makeStrategicDecisions :: "world \<Rightarrow> error + world" where
  "makeStrategicDecisions w =
     (case marketAnalysis w of
        None \<Rightarrow> Inr (activateBalancedStrategies w)
      | Some ma \<Rightarrow>
          (let sentiment = ma_sentiment ma; volatility = ma_volatility ma in
           case (if sentiment = ''strong_bull'' then Inr (activateAggressiveStrategies w)
                 else if sentiment = ''bull''
                   then Inl (TypeError ''this.activateGrowthStrategies is not a function'')
                 else if sentiment = ''bear'' then Inr (activateDefensiveStrategies w)
                 else if sentiment = ''strong_bear''
                   then Inl (TypeError ''this.activateHedgingStrategies is not a function'')
                 else Inr (activateBalancedStrategies w)) of
             Inl e \<Rightarrow> Inl e
           | Inr w1 \<Rightarrow>
               Inr (if volatility > 0.08 then adjustRiskParameters (-0.1) w1
                    else if volatility < 0.03 then adjustRiskParameters 0.05 w1
                    else w1)))"

record marketConditions =
  mc_volatility :: real
  mc_trend :: real
  mc_volume :: real
  mc_marketSentiment :: real

text \<open>\<open>shouldTrade\<close> reads \<open>bot.riskLevel\<close> of the bot that \<open>find\<close> returned: with a model
  but no bot this is a TypeError. \<open>gate\<close> is the sample of \<open>Math.random()\<close>.\<close>

definition shouldTrade :: "int \<Rightarrow> marketConditions \<Rightarrow> real \<Rightarrow> world \<Rightarrow> error + bool" where
  "shouldTrade botId mc gate w =
     (case botModels w botId of
        None \<Rightarrow> Inr False
      | Some model \<Rightarrow>
          (case find (\<lambda>b. bid b = botId) (bots (dm w)) of
             None \<Rightarrow> Inl (TypeError ''bot is undefined'')
           | Some bt \<Rightarrow>
               (let performance = getBotPerformance botId w;
                    tradeScore =
                      (mc_volatility mc * 30 + \<bar>mc_trend mc\<bar> * 25 + mc_volume mc * 20
                       + (p_successRate performance / 100) * 15
                       + min 10 (totalProfit performance / 100) * 10) * riskLevel bt
                in Inr (tradeScore > 45 \<and> gate > 0.3))))"

definition getTradeType :: "int \<Rightarrow> marketConditions \<Rightarrow> string" where
  "getTradeType botId mc = (if mc_trend mc > 0 then ''buy'' else ''sell'')"

definition getConfidence :: "int \<Rightarrow> world \<Rightarrow> real" where
  "getConfidence botId w =
     (let model = botModels w botId;
          found = find (\<lambda>b. bid b = botId) (bots (dm w));
          performance = getBotPerformance botId w
      in case (model, found) of
           (Some m, Some b) \<Rightarrow>
             (let confidence =
                    (overallConfidence w + (p_successRate performance - 50) / 2
                     + min 20 (totalProfit performance / 10)) * riskLevel b
              in max 20 (min 95 confidence))
         | _ \<Rightarrow> 50)"

text \<open>\<open>Array.prototype.slice(-n)\<close>: the last \<open>n\<close> elements, all of them when there are fewer.\<close>

definition sliceLast :: "nat \<Rightarrow> 'a list \<Rightarrow> 'a list" where
  "sliceLast n xs = drop (length xs - n) xs"

definition updateBotModel :: "int \<Rightarrow> world \<Rightarrow> world" where
  "updateBotModel botId w =
     (case botModels w botId of
        None \<Rightarrow> w
      | Some model \<Rightarrow>
          if length (tradeHistory model) < 10 then w
          else
            (let recentTrades = sliceLast 20 (tradeHistory model);
                 winningTrades = filter (\<lambda>t. o_profit t > 0) recentTrades;
                 totalP = foldl (\<lambda>sum t. sum + o_profit t) 0 recentTrades;
                 wr = (real (length winningTrades) / real (length recentTrades)) * 100;
                 ap = totalP / real (length recentTrades);
                 rar = ap / (if wr / 100 = 0 then 1 else wr / 100)
             in w\<lparr>botModels := (botModels w)(botId \<mapsto>
                    model\<lparr>performanceMetrics :=
                      \<lparr>winRate = wr, avgProfit = ap, riskAdjustedReturn = rar\<rparr>\<rparr>)\<rparr>))"

definition learnFromTrade :: "int \<Rightarrow> tradeDecision \<Rightarrow> real \<Rightarrow> world \<Rightarrow> world" where
  "learnFromTrade botId dec pr w =
     (case botModels w botId of
        None \<Rightarrow> w
      | Some model \<Rightarrow>
          (let h = tradeHistory model @
                     [\<lparr>o_decision = dec, o_profit = pr, o_timestamp = clock w\<rparr>];
               h' = (if length h > 100 then sliceLast 100 h else h)
           in updateBotModel botId
                (w\<lparr>botModels := (botModels w)(botId \<mapsto> model\<lparr>tradeHistory := h'\<rparr>)\<rparr>)))"

text \<open>
  The result object of \<open>optimizeBot\<close>. The message of the two risk branches embeds
  \<open>(bot.riskLevel * 100).toFixed(0)\<close> and \<open>(newRisk * 100).toFixed(0)\<close>; the two numbers
  are kept instead of their decimal rendering. \<open>bot\<close> is the object that \<open>updateBot\<close> has
  just assigned to, so the first number is read after the update.
\<close>

datatype optMessage = NotFound | Reduced real real | Increased real real | Maintained

record optResult =
  r_success :: bool
  r_botName :: "string option"
  r_message :: optMessage
  r_confidence :: "real option"

definition optimizeBot :: "int \<Rightarrow> world \<Rightarrow> optResult \<times> world" where
  "optimizeBot botId w =
     (let performance = getBotPerformance botId w in
      case (find (\<lambda>b. bid b = botId) (bots (dm w)), botModels w botId) of
        (Some bt, Some model) \<Rightarrow>
          (let (optimization, confidence, w1) =
                 (if p_successRate performance < 40 then
                    (let newRisk = max 0.1 (riskLevel bt - 0.2)
                     in (Reduced (newRisk * 100) (newRisk * 100), 80,
                         snd (updateBot botId (\<lambda>b. b\<lparr>riskLevel := newRisk\<rparr>) w)))
                  else if p_successRate performance > 70 \<and> totalProfit performance > 50 then
                    (let newRisk = min 0.9 (riskLevel bt + 0.15)
                     in (Increased (newRisk * 100) (newRisk * 100), 85,
                         snd (updateBot botId (\<lambda>b. b\<lparr>riskLevel := newRisk\<rparr>) w)))
                  else (Maintained, 70, w));
               w2 = w1\<lparr>botModels := (botModels w1)(botId \<mapsto>
                         model\<lparr>lastOptimization := Some (clock w1)\<rparr>)\<rparr>
           in (\<lparr>r_success = True, r_botName = Some (name bt), r_message = optimization,
                r_confidence = Some confidence\<rparr>, w2))
      | _ \<Rightarrow>
          (\<lparr>r_success = False, r_botName = None, r_message = NotFound, r_confidence = None\<rparr>, w))"

text \<open>\<open>startMonitoring\<close> arms the 10-second interval and logs a decision;
  \<open>stopMonitoring\<close> clears the interval.\<close>

definition startMonitoring :: "world \<Rightarrow> world" where
  "startMonitoring w =
     addAIDecision
       (mkDecision ''system'' ''AI Agent started continuous market monitoring'' 95)
       (w\<lparr>monitoringInterval := True\<rparr>)"

definition stopMonitoring :: "world \<Rightarrow> world" where
  "stopMonitoring w = (if monitoringInterval w then w\<lparr>monitoringInterval := False\<rparr> else w)"

section \<open>TradingEngine\<close>

text \<open>\<open>parseFloat(x.toFixed(f))\<close>: the nearest multiple of \<open>10^-f\<close>, a tie going away from
  zero; \<open>Math.round\<close>: the nearest integer, a tie going up.\<close>

definition toFixed :: "nat \<Rightarrow> real \<Rightarrow> real" where
  "toFixed f x = sgn x * real_of_int \<lfloor>\<bar>x\<bar> * 10 ^ f + 1 / 2\<rfloor> / 10 ^ f"

definition mathRound :: "real \<Rightarrow> real" where
  "mathRound x = real_of_int \<lfloor>x + 1 / 2\<rfloor>"

text \<open>The samples of \<open>Math.random()\<close> that one call of \<open>executeBotTrade\<close> may draw, each in
  \<open>[0, 1)\<close>: for the side, for the gate of \<open>shouldTrade\<close>, for the symbol, the amount and
  the market multiplier. The four samples of \<open>analyzeMarketConditions\<close> are the
  \<open>marketConditions\<close> argument.\<close>

record draws =
  r_side :: real
  r_gate :: real
  r_symbol :: real
  r_amount :: real
  r_market :: real

definition getRandomSymbol :: "real \<Rightarrow> world \<Rightarrow> string" where
  "getRandomSymbol r w =
     (let symbols = map fst (marketData (dm w));
          i = nat \<lfloor>r * real (length symbols)\<rfloor>
      in if i < length symbols \<and> symbols ! i \<noteq> [] then symbols ! i else ''BTC/USD'')"

definition generateTradeDecision ::
  "bot \<Rightarrow> marketConditions \<Rightarrow> draws \<Rightarrow> world \<Rightarrow> error + tradeDecision" where
  "generateTradeDecision bt mc rnd w =
     (case (if btype bt = ''arbitrage'' then
              Inr (mc_volatility mc > 0.3,
                   if r_side rnd > 0.5 then ''buy'' else ''sell'',
                   mc_volatility mc * 80)
            else if btype bt = ''momentum'' then
              Inr (\<bar>mc_trend mc\<bar> > 0.2,
                   if mc_trend mc > 0 then ''buy'' else ''sell'',
                   \<bar>mc_trend mc\<bar> * 90)
            else if btype bt = ''market_making'' then
              Inr (mc_volume mc > 0.4,
                   if r_side rnd > 0.5 then ''buy'' else ''sell'',
                   mc_volume mc * 70)
            else if btype bt = ''scalping'' then
              Inr (mc_volatility mc > 0.2,
                   if r_side rnd > 0.7 then ''buy'' else ''sell'',
                   mc_volatility mc * 85)
            else if btype bt = ''ai_adaptive'' then
              (case shouldTrade (bid bt) mc (r_gate rnd) w of
                 Inl e \<Rightarrow> Inl e
               | Inr ex \<Rightarrow> Inr (ex, getTradeType (bid bt) mc, getConfidence (bid bt) w))
            else Inr (False, ''buy'', 0)) of
        Inl e \<Rightarrow> Inl e
      | Inr (execute, ty, confidence) \<Rightarrow>
          Inr \<lparr>td_execute = (execute \<and> confidence > 50), td_type = ty,
               td_symbol = getRandomSymbol (r_symbol rnd) w,
               td_amount = 100 + r_amount rnd * 400,
               td_confidence = mathRound confidence\<rparr>)"

definition calculateTradeProfit :: "bot \<Rightarrow> tradeDecision \<Rightarrow> real \<Rightarrow> real" where
  "calculateTradeProfit bt dec r =
     (let baseProfit = td_confidence dec / 10;
          riskAdjustment = 1 - riskLevel bt;
          marketMultiplier = 1 + (r - 0.5)
      in toFixed 2 (baseProfit * riskAdjustment * marketMultiplier - 0.5))"

definition calculatePerformanceScore :: "bot \<Rightarrow> real \<Rightarrow> real \<Rightarrow> real" where
  "calculatePerformanceScore bt sr recentProfit =
     toFixed 1 (sr * 0.6 + max 0 (recentProfit * 10) * 0.4)"

text \<open>\<open>executeBotTrade(bot)\<close>: \<open>bt\<close> is the bot object as it is when the call starts; the
  call reads its \<open>id\<close>, \<open>type\<close>, \<open>name\<close> and \<open>riskLevel\<close> and assigns none of them.\<close>

definition executeBotTrade :: "bot \<Rightarrow> marketConditions \<Rightarrow> draws \<Rightarrow> world \<Rightarrow> error + world" where
  "executeBotTrade bt mc rnd w =
     (case generateTradeDecision bt mc rnd w of
        Inl e \<Rightarrow> Inl e
      | Inr dec \<Rightarrow>
          if td_execute dec then
            (let pr = calculateTradeProfit bt dec (r_market rnd);
                 success = (pr > 0);
                 performance = getBotPerformance (bid bt) w;
                 newTrades = totalTrades performance + 1;
                 newProfitableTrades = profitableTrades performance + (if success then 1 else 0);
                 newSuccessRate = (real newProfitableTrades / real newTrades) * 100;
                 newTotalProfit = totalProfit performance + pr;
                 w1 = snd (updateBot (bid bt)
                        (\<lambda>b. b\<lparr>profit := newTotalProfit, trades := real newTrades,
                                successRate := toFixed 2 newSuccessRate,
                                performance := calculatePerformanceScore bt newSuccessRate pr\<rparr>) w);
                 w2 = addTrade
                        \<lparr>t_botId = bid bt, t_botName = name bt, t_symbol = td_symbol dec,
                         t_type = td_type dec, t_amount = td_amount dec, t_profit = pr,
                         t_success = success, t_id = 0, t_timestamp = clock w1\<rparr> w1
             in Inr (learnFromTrade (bid bt) dec pr w2))
          else Inr w)"

text \<open>\<open>executeTradingCycle\<close>: the active bots are selected first; each is then traded in
  list order, read as it is when its turn comes, with the samples of its position;
  at the end the agent decides.\<close>

fun tradeEach :: "nat list \<Rightarrow> (nat \<Rightarrow> marketConditions \<times> draws) \<Rightarrow> world \<Rightarrow> error + world" where
  "tradeEach [] samples w = Inr w"
| "tradeEach (i # is) samples w =
     (case executeBotTrade (bots (dm w) ! i) (fst (samples i)) (snd (samples i)) w of
        Inl e \<Rightarrow> Inl e
      | Inr w' \<Rightarrow> tradeEach is samples w')"

definition executeTradingCycle :: "(nat \<Rightarrow> marketConditions \<times> draws) \<Rightarrow> world \<Rightarrow> error + world" where
  "executeTradingCycle samples w =
     (let activeBots = filter (\<lambda>i. status (bots (dm w) ! i) = ''active'')
                         [0..<length (bots (dm w))]
      in case tradeEach activeBots samples w of
           Inl e \<Rightarrow> Inl e
         | Inr w' \<Rightarrow> makeStrategicDecisions w')"

definition startTradingCycle :: "world \<Rightarrow> world" where
  "startTradingCycle w = w\<lparr>tradingInterval := True\<rparr>"

definition startAllBots :: "world \<Rightarrow> world" where
  "startAllBots w =
     (if isRunning w then w
      else
        (let w1 = w\<lparr>isRunning := True\<rparr>;
             w2 = forEachBot
                    (\<lambda>bt w'. snd (updateBot (bid bt) (\<lambda>b. b\<lparr>status := ''active''\<rparr>) w')) w1;
             w3 = addAIDecision (mkDecision ''system'' ''All trading bots activated'' 95) w2;
             w4 = startTradingCycle w3
         in startMonitoring w4))"

definition stopAllBots :: "world \<Rightarrow> world" where
  "stopAllBots w =
     (let w1 = w\<lparr>isRunning := False\<rparr>;
          w2 = (if tradingInterval w1 then w1\<lparr>tradingInterval := False\<rparr> else w1);
          w3 = forEachBot
                 (\<lambda>bt w'. snd (updateBot (bid bt) (\<lambda>b. b\<lparr>status := ''inactive''\<rparr>) w')) w2;
          w4 = addAIDecision
                 (mkDecision ''emergency'' ''EMERGENCY STOP: All trading bots deactivated'' 100) w3
      in stopMonitoring w4)"

text \<open>What a JavaScript call hands back to its caller; a function body that ends without a
  \<open>return\<close> statement hands back \<open>undefined\<close>.\<close>

datatype returned = Undefined | Boolean bool

definition toggleBot :: "int \<Rightarrow> world \<Rightarrow> returned \<times> world" where
  "toggleBot botId w =
     (case find (\<lambda>b. bid b = botId) (bots (dm w)) of
        Some bt \<Rightarrow>
          (let newStatus = (if status bt = ''active'' then ''inactive'' else ''active'');
               w1 = snd (updateBot botId (\<lambda>b. b\<lparr>status := newStatus\<rparr>) w);
               w2 = addAIDecision
                      (mkDecision ''bot_control''
                         (name bt @ '' '' @
                            (if newStatus = ''active'' then ''activated'' else ''deactivated''))
                         90) w1
           in (Undefined, w2))
      | None \<Rightarrow> (Undefined, w))"

section \<open>FleetAIApp.importData\<close>

text \<open>
  The text of the file as the \<open>try\<close> block sees it: either an error is thrown before
  the test (by \<open>JSON.parse\<close> on malformed text, or by reading a key of \<open>null\<close>) and the
  \<open>catch\<close> alerts its message, or the parse gives a value of which \<open>importData\<close> reads
  three keys. A field is \<open>None\<close> when the key is absent (or holds a falsy value), which
  is what the test \<open>data.bots && data.tradingHistory && data.aiDecisions\<close> sees. The
  function hands its report to \<open>alert\<close>; the model returns the alerted text.
  \<open>FleetAIApp\<close> holds a \<open>DataManager\<close> of its own, over the same \<open>localStorage\<close> key;
  the model runs \<open>importData\<close> on the store of the world it is given.
\<close>

record snapshot =
  s_bots :: "bot list option"
  s_tradingHistory :: "trade list option"
  s_aiDecisions :: "decision list option"

datatype fileContent = Unparsable string | Parsed snapshot

definition importData :: "fileContent \<Rightarrow> world \<Rightarrow> string \<times> world" where
  "importData file w =
     (case file of
        Unparsable msg \<Rightarrow> (''Error importing data: '' @ msg, w)
      | Parsed data \<Rightarrow>
          (case (s_bots data, s_tradingHistory data, s_aiDecisions data) of
             (Some bs, Some th, Some ds) \<Rightarrow>
               (''Data imported successfully!'',
                saveData (w\<lparr>dm := (dm w)\<lparr>bots := bs, tradingHistory := th, aiDecisions := ds\<rparr>\<rparr>))
           | _ \<Rightarrow> (''Invalid data format.'', w)))"

section \<open>The default fleet\<close>

definition defaultBot :: "int \<Rightarrow> string \<Rightarrow> string \<Rightarrow> string \<Rightarrow> real \<Rightarrow> bot" where
  "defaultBot i nm ty strat risk =
     \<lparr>bid = i, name = nm, btype = ty, status = ''inactive'', strategy = strat, profit = 0,
      trades = 0, successRate = 0, riskLevel = risk, performance = 0\<rparr>"

definition defaultData :: store where
  "defaultData =
     \<lparr>bots =
        [defaultBot 1 ''Alpha Arbitrage'' ''arbitrage'' ''Multi-Exchange Arbitrage'' 0.3,
         defaultBot 2 ''Beta Momentum'' ''momentum'' ''Trend Following'' 0.5,
         defaultBot 3 ''Gamma Market Maker'' ''market_making'' ''Liquidity Provision'' 0.4,
         defaultBot 4 ''Delta Scalper'' ''scalping'' ''High-Frequency Trading'' 0.6,
         defaultBot 5 ''Epsilon AI'' ''ai_adaptive'' ''Neural Network Adaptive'' 0.7],
      tradingHistory = [], aiDecisions = [], marketData = [],
      settings = \<lparr>riskManagement = True, autoRebalance = True, maxDrawdown = 0.1,
                  dailyTarget = 0.05\<rparr>\<rparr>"

text \<open>The state after \<open>new TradingEngine()\<close> on an empty \<open>localStorage\<close>: \<open>loadData\<close> takes
  the defaults and saves them, and the agent gets one fresh model per bot.\<close>

definition newEngine :: world where
  "newEngine =
     initializeBotModels
       \<lparr>dm = defaultData, localStorage = Some defaultData, clock = 0, isRunning = False,
        tradingInterval = False, marketUpdateInterval = False, monitoringInterval = False,
        botModels = Map.empty, marketAnalysis = None, overallConfidence = 75\<rparr>"

section \<open>Rolling metrics, as specified\<close>

text \<open>
  The rolling metrics in the words of the specification, over a list of outcomes:
  \<open>winRate = winning / total \<times> 100\<close>, \<open>avgProfit = mean(profit)\<close>, and
  \<open>riskAdjustedReturn = avgProfit / (winRate / 100, or 1 if winRate is 0)\<close>.
\<close>

definition rollingMetrics :: "outcome list \<Rightarrow> metrics" where
  "rollingMetrics recent =
     (let wr = real (length (filter (\<lambda>t. o_profit t > 0) recent)) / real (length recent) * 100;
          ap = sum_list (map o_profit recent) / real (length recent)
      in \<lparr>winRate = wr, avgProfit = ap,
          riskAdjustedReturn = ap / (if wr = 0 then 1 else wr / 100)\<rparr>)"

section \<open>Sample inputs\<close>

definition sampleDecision :: tradeDecision where
  "sampleDecision = \<lparr>td_execute = True, td_type = ''buy'', td_symbol = ''BTC/USD'',
     td_amount = 100, td_confidence = 60\<rparr>"

definition sampleOutcome :: "real \<Rightarrow> outcome" where
  "sampleOutcome pr = \<lparr>o_decision = sampleDecision, o_profit = pr, o_timestamp = 0\<rparr>"

text \<open>The fresh engine after bot 1 has learned nine trades of profit 5.\<close>

definition nineWins :: world where
  "nineWins = newEngine\<lparr>botModels := (botModels newEngine)(1 \<mapsto>
                newModel\<lparr>tradeHistory := replicate 9 (sampleOutcome 5)\<rparr>)\<rparr>"

text \<open>The fresh engine with every bot active and a market analysis of trend \<open>-0.3\<close> and
  volatility \<open>v\<close>, classified \<open>bear\<close>.\<close>

definition bearMarket :: "real \<Rightarrow> world" where
  "bearMarket v =
     newEngine\<lparr>dm := (dm newEngine)\<lparr>bots := map (\<lambda>b. b\<lparr>status := ''active''\<rparr>) (bots defaultData)\<rparr>,
               marketAnalysis := Some \<lparr>ma_volatility = v, ma_trend = -0.3, ma_volume = 0.5,
                                       ma_sentiment = ''bear'', ma_timestamp = 0\<rparr>\<rparr>"

section \<open>Loop states\<close>

text \<open>The bots after the first \<open>k\<close> iterations of a \<open>forEach\<close> whose callback replaces
  each bot \<open>b\<close> by \<open>h b\<close>.\<close>

definition partlyMapped :: "(bot \<Rightarrow> bot) \<Rightarrow> nat \<Rightarrow> bot list \<Rightarrow> bot list" where
  "partlyMapped h k bs = map h (take k bs) @ drop k bs"

text \<open>The state after the callbacks of a loop have written the bots \<open>bs'\<close>.\<close>

definition written :: "bot list \<Rightarrow> world \<Rightarrow> world" where
  "written bs' w = w\<lparr>dm := (dm w)\<lparr>bots := bs'\<rparr>, localStorage := Some ((dm w)\<lparr>bots := bs'\<rparr>)\<rparr>"

section \<open>Sequences of adaptive adjustments\<close>

definition riskOk :: "bot \<Rightarrow> bool" where
  "riskOk b = (0.1 \<le> riskLevel b \<and> riskLevel b \<le> 0.9)"

text \<open>
  One adaptive adjustment: a strategic decision under the market analysis that
  \<open>analyzeMarketConditions\<close> has just stored (the sentiment branch followed by the
  volatility rule), a global \<open>adjustRiskParameters\<close> by any amount, or a manual
  \<open>optimizeBot\<close>. When \<open>makeStrategicDecisions\<close> throws, it does so before its first
  write, so the state is the one it was called in.
\<close>

datatype adjustment = Decide "analysis option" | Adjust real | Optimize int

fun applyAdjustment :: "adjustment \<Rightarrow> world \<Rightarrow> world" where
  "applyAdjustment (Decide ma) w =
     (case makeStrategicDecisions (w\<lparr>marketAnalysis := ma\<rparr>) of
        Inl e \<Rightarrow> w\<lparr>marketAnalysis := ma\<rparr>
      | Inr w' \<Rightarrow> w')"
| "applyAdjustment (Adjust a) w = adjustRiskParameters a w"
| "applyAdjustment (Optimize botId) w = snd (optimizeBot botId w)"

text \<open>Position by position, the ids are kept and a risk level inside \<open>[0.1, 0.9]\<close> stays
  inside.\<close>

definition keepsRisk :: "bot list \<Rightarrow> bot list \<Rightarrow> bool" where
  "keepsRisk bs bs' = list_all2 (\<lambda>b b'. bid b' = bid b \<and> (riskOk b \<longrightarrow> riskOk b')) bs bs'"

section \<open>A full trade log\<close>

text \<open>
  A fleet of one momentum bot of risk level 0.9 that has made 1000 trades, all of them in
  the log (newest first): the two oldest won, the other 998 lost 0.23 each. Its stored
  success rate is \<open>2 / 1000 \<times> 100 = 0.2\<close>. The samples make a momentum bot trade
  (\<open>|trend| = 0.6\<close>, confidence 54) and, at risk level 0.9 with market sample 0, lose
  0.23.
\<close>

definition sampleTrade :: "real \<Rightarrow> trade" where
  "sampleTrade pr = \<lparr>t_botId = 1, t_botName = ''Beta Momentum'', t_symbol = ''BTC/USD'',
     t_type = ''buy'', t_amount = 100, t_profit = pr, t_success = (pr > 0), t_id = 0,
     t_timestamp = 0\<rparr>"

definition fullLog :: "trade list" where
  "fullLog = replicate 998 (sampleTrade (-0.23)) @ [sampleTrade 1, sampleTrade 1]"

definition riskyBot :: bot where
  "riskyBot = \<lparr>bid = 1, name = ''Beta Momentum'', btype = ''momentum'', status = ''active'',
     strategy = ''Trend Following'', profit = -227.54, trades = 1000, successRate = 0.2,
     riskLevel = 0.9, performance = 0.1\<rparr>"

definition cappedWorld :: world where
  "cappedWorld = newEngine\<lparr>dm := (dm newEngine)\<lparr>bots := [riskyBot], tradingHistory := fullLog\<rparr>\<rparr>"

definition sampleConditions :: marketConditions where
  "sampleConditions = \<lparr>mc_volatility = 0.5, mc_trend = 0.6, mc_volume = 0.5,
     mc_marketSentiment = 0.5\<rparr>"

definition sampleDraws :: draws where
  "sampleDraws = \<lparr>r_side = 0.5, r_gate = 0.5, r_symbol = 0, r_amount = 0, r_market = 0\<rparr>"

definition twoLosses :: world where
  "twoLosses = projr (tradeEach [0, 0] (\<lambda>i. (sampleConditions, sampleDraws)) cappedWorld)"

text \<open>Every bot's stored success rate is within 0.01 of the rate that
  \<open>getBotPerformance\<close> computes from the trade log.\<close>

definition ratesConsistent :: "world \<Rightarrow> bool" where
  "ratesConsistent w =
     (\<forall>b\<in>set (bots (dm w)).
        \<bar>successRate b - p_successRate (getBotPerformance (bid b) w)\<bar> \<le> 0.01)"

section \<open>Lookups\<close>

lemma find_None_notin: "(find (\<lambda>b. bid b = X) bs = None) = (X \<notin> set (map bid bs))"
  by (induction bs) auto

lemma newEngine_bots: "bots (dm newEngine) = bots defaultData"
  by (simp add: newEngine_def initializeBotModels_def)

lemma newEngine_ids: "map bid (bots (dm newEngine)) = [1, 2, 3, 4, 5]"
  by (simp add: newEngine_bots defaultData_def defaultBot_def)

lemma newEngine_models: "botModels newEngine 99 = None"
  by (simp add: newEngine_def initializeBotModels_def defaultData_def defaultBot_def)

lemma find_Some_split:
  "find (\<lambda>b. bid b = X) bs = Some bt \<Longrightarrow>
     bid bt = X
     \<and> bs = takeWhile (\<lambda>b. bid b \<noteq> X) bs @ bt # tl (dropWhile (\<lambda>b. bid b \<noteq> X) bs)
     \<and> assignFirst X f bs =
         takeWhile (\<lambda>b. bid b \<noteq> X) bs @ f bt # tl (dropWhile (\<lambda>b. bid b \<noteq> X) bs)"
  by (induction bs) (auto split: if_splits)

lemma addAIDecision_eq:
  "addAIDecision d w =
     w\<lparr>dm := (dm w)\<lparr>aiDecisions :=
             take 100 (d\<lparr>d_id := clock w, d_timestamp := clock w\<rparr> # aiDecisions (dm w))\<rparr>,
       localStorage := Some ((dm w)\<lparr>aiDecisions :=
             take 100 (d\<lparr>d_id := clock w, d_timestamp := clock w\<rparr> # aiDecisions (dm w))\<rparr>)\<rparr>"
  by (simp add: addAIDecision_def saveData_def Let_def)

section \<open>Unknown bot ids\<close>

text \<open>
  C10. A bot id for which the agent holds no learning model, or which no bot of the fleet
  carries, gets the confidence 50 from \<open>getConfidence\<close>, whatever the overall confidence,
  the trade log and the risk levels are: the early return comes before the
  performance adjustments, the multiplication by \<open>riskLevel\<close> and the clamp to
  \<open>[20, 95]\<close>.
\<close>

theorem getConfidence_unknown:
  "botModels w botId = None \<or> find (\<lambda>b. bid b = botId) (bots (dm w)) = None
   \<Longrightarrow> getConfidence botId w = 50"
  by (auto simp: getConfidence_def Let_def split: option.splits)

theorem getConfidence_unknown_witness:
  "botModels newEngine 99 = None \<and> getConfidence 99 newEngine = 50"
  using getConfidence_unknown [of newEngine 99] newEngine_models by simp

text \<open>
  C8, as the code has it. For a bot id that no bot of the fleet carries, \<open>updateBot\<close>
  returns \<open>false\<close> and \<open>AIAgent.optimizeBot\<close> returns the object
  \<open>{success: false, message: "Bot not found"}\<close>; \<open>toggleBot\<close> returns \<open>undefined\<close>. All
  three leave the state as it was, and none throws.
\<close>

theorem unknown_bot_id:
  "botId \<notin> set (map bid (bots (dm w))) \<Longrightarrow>
     updateBot botId updates w = (False, w)
     \<and> toggleBot botId w = (Undefined, w)
     \<and> optimizeBot botId w =
         (\<lparr>r_success = False, r_botName = None, r_message = NotFound, r_confidence = None\<rparr>, w)"
  using find_None_notin [of botId "bots (dm w)"]
  by (simp add: updateBot_def toggleBot_def optimizeBot_def Let_def)

theorem unknown_bot_id_witness:
  "(99::int) \<notin> set (map bid (bots (dm newEngine)))
   \<and> updateBot 99 (\<lambda>b. b\<lparr>status := ''active''\<rparr>) newEngine = (False, newEngine)
   \<and> toggleBot 99 newEngine = (Undefined, newEngine)
   \<and> fst (optimizeBot 99 newEngine) =
        \<lparr>r_success = False, r_botName = None, r_message = NotFound, r_confidence = None\<rparr>"
  using unknown_bot_id [of 99 newEngine "\<lambda>b. b\<lparr>status := ''active''\<rparr>"] newEngine_ids
  by simp

text \<open>
  C8 as stated fails for \<open>toggleBot\<close>: on the default fleet it hands the caller the same
  \<open>undefined\<close> for the unknown id 99 as for the known id 1, so the caller is told nothing.
\<close>

theorem toggleBot_no_indicator:
  "(99::int) \<notin> set (map bid (bots (dm newEngine)))
   \<and> (1::int) \<in> set (map bid (bots (dm newEngine)))
   \<and> fst (toggleBot 99 newEngine) = Undefined
   \<and> fst (toggleBot 1 newEngine) = fst (toggleBot 99 newEngine)"
  by (simp add: newEngine_ids toggleBot_def Let_def newEngine_bots defaultData_def defaultBot_def
      split: option.splits)

section \<open>Import\<close>

text \<open>
  C9. When the parsed file lacks at least one of the keys \<open>bots\<close>, \<open>tradingHistory\<close> and
  \<open>aiDecisions\<close>, \<open>importData\<close> alerts "Invalid data format." and the whole state,
  \<open>localStorage\<close> included, is what it was.
\<close>

theorem importData_missing_key:
  "s_bots d = None \<or> s_tradingHistory d = None \<or> s_aiDecisions d = None
   \<Longrightarrow> importData (Parsed d) w = (''Invalid data format.'', w)"
  by (auto simp: importData_def split: option.splits)

theorem importData_missing_key_witness:
  "s_aiDecisions \<lparr>s_bots = Some [], s_tradingHistory = Some [], s_aiDecisions = None\<rparr> = None
   \<and> importData (Parsed \<lparr>s_bots = Some [], s_tradingHistory = Some [], s_aiDecisions = None\<rparr>)
        newEngine = (''Invalid data format.'', newEngine)"
  using importData_missing_key
    [of "\<lparr>s_bots = Some [], s_tradingHistory = Some [], s_aiDecisions = None\<rparr>" newEngine]
  by simp

section \<open>Toggling one bot\<close>

text \<open>
  C7. Let \<open>bt\<close> be the bot that \<open>find\<close> returns for the id \<open>X\<close>: the first bot of the
  fleet carrying \<open>X\<close>. \<open>toggleBot(X)\<close> replaces the status of that bot by \<open>inactive\<close> when
  it was \<open>active\<close> and by \<open>active\<close> otherwise, and leaves every bot before and after it
  as it was; it puts exactly one \<open>bot_control\<close> decision, whose message is the bot's
  name followed by "activated" or "deactivated", at the head of the decision log (cut
  at 100 entries), saves the store, and changes nothing else: the running flag, the
  timers, the trade log, the market data, the settings and the agent's fields are
  those of the state before.
\<close>

theorem toggleBot_frame:
  "find (\<lambda>b. bid b = X) (bots (dm w)) = Some bt \<Longrightarrow>
     bid bt = X
     \<and> bots (dm w) =
          takeWhile (\<lambda>b. bid b \<noteq> X) (bots (dm w)) @ bt
            # tl (dropWhile (\<lambda>b. bid b \<noteq> X) (bots (dm w)))
     \<and> toggleBot X w =
         (Undefined,
          w\<lparr>dm := (dm w)
                \<lparr>bots := takeWhile (\<lambda>b. bid b \<noteq> X) (bots (dm w))
                     @ bt\<lparr>status := (if status bt = ''active'' then ''inactive'' else ''active'')\<rparr>
                     # tl (dropWhile (\<lambda>b. bid b \<noteq> X) (bots (dm w))),
                 aiDecisions := take 100
                   (\<lparr>d_type = ''bot_control'',
                     d_message = name bt @ '' '' @
                       (if status bt = ''active'' then ''deactivated'' else ''activated''),
                     d_confidence = 90, d_id = clock w, d_timestamp = clock w\<rparr>
                    # aiDecisions (dm w))\<rparr>,
             localStorage := Some ((dm w)
                \<lparr>bots := takeWhile (\<lambda>b. bid b \<noteq> X) (bots (dm w))
                     @ bt\<lparr>status := (if status bt = ''active'' then ''inactive'' else ''active'')\<rparr>
                     # tl (dropWhile (\<lambda>b. bid b \<noteq> X) (bots (dm w))),
                 aiDecisions := take 100
                   (\<lparr>d_type = ''bot_control'',
                     d_message = name bt @ '' '' @
                       (if status bt = ''active'' then ''deactivated'' else ''activated''),
                     d_confidence = 90, d_id = clock w, d_timestamp = clock w\<rparr>
                    # aiDecisions (dm w))\<rparr>)\<rparr>)
     \<and> isRunning (snd (toggleBot X w)) = isRunning w"
proof -
  assume f: "find (\<lambda>b. bid b = X) (bots (dm w)) = Some bt"
  note s = find_Some_split [OF f]
  have a: "assignFirst X (\<lambda>b. b\<lparr>status := st\<rparr>) (bots (dm w)) =
           takeWhile (\<lambda>b. bid b \<noteq> X) (bots (dm w)) @ bt\<lparr>status := st\<rparr>
             # tl (dropWhile (\<lambda>b. bid b \<noteq> X) (bots (dm w)))" for st
    using s by blast
  show ?thesis
    using s f
    by (simp add: toggleBot_def updateBot_def Let_def a addAIDecision_eq saveData_def
        mkDecision_def)
qed

theorem toggleBot_frame_witness:
  "find (\<lambda>b. bid b = 1) (bots (dm newEngine)) =
     Some (defaultBot 1 ''Alpha Arbitrage'' ''arbitrage'' ''Multi-Exchange Arbitrage'' 0.3)
   \<and> map status (bots (dm (snd (toggleBot 1 newEngine)))) =
       [''active'', ''inactive'', ''inactive'', ''inactive'', ''inactive'']
   \<and> map d_message (aiDecisions (dm (snd (toggleBot 1 newEngine)))) =
       [''Alpha Arbitrage activated'']
   \<and> isRunning (snd (toggleBot 1 newEngine)) = isRunning newEngine"
proof -
  have f: "find (\<lambda>b. bid b = 1) (bots (dm newEngine)) =
     Some (defaultBot 1 ''Alpha Arbitrage'' ''arbitrage'' ''Multi-Exchange Arbitrage'' 0.3)"
    by (simp add: newEngine_bots defaultData_def defaultBot_def)
  have d: "aiDecisions (dm newEngine) = []"
    by (simp add: newEngine_def initializeBotModels_def defaultData_def)
  show ?thesis
    using toggleBot_frame [OF f] f d
    by (simp add: newEngine_bots defaultData_def defaultBot_def)
qed

section \<open>Learning from trades\<close>

lemma foldl_plus_sum_list: "foldl (\<lambda>s t. s + f t) a xs = a + sum_list (map f xs)" for a :: real
  by (induction xs arbitrary: a) auto

lemma sliceLast_length: "length (sliceLast k xs) = min k (length xs)"
  by (simp add: sliceLast_def)

lemma updateBotModel_eq:
  "botModels w botId = Some model \<Longrightarrow>
     updateBotModel botId w =
       (if length (tradeHistory model) < 10 then w
        else w\<lparr>botModels := (botModels w)(botId \<mapsto>
               model\<lparr>performanceMetrics := rollingMetrics (sliceLast 20 (tradeHistory model))\<rparr>)\<rparr>)"
  by (simp add: updateBotModel_def rollingMetrics_def Let_def foldl_plus_sum_list)

lemma newEngine_clock: "clock newEngine = 0"
  by (simp add: newEngine_def initializeBotModels_def)

lemma newEngine_model1: "botModels newEngine 1 = Some newModel"
  by (simp add: newEngine_def initializeBotModels_def defaultData_def defaultBot_def)

text \<open>
  C6, as the code has it. \<open>learnFromTrade\<close> on a bot with a learning model appends the
  outcome and keeps the last 100 entries; with \<open>n\<close> the length of that history, the three
  metrics are recomputed when \<open>n \<ge> 10\<close>, and then over exactly the \<open>min(20, n)\<close> most
  recent entries; when \<open>n < 10\<close> they are left as they were.
\<close>

theorem learnFromTrade_metrics:
  "botModels w botId = Some model \<Longrightarrow>
     (let h = sliceLast 100
                (tradeHistory model @ [\<lparr>o_decision = dec, o_profit = pr, o_timestamp = clock w\<rparr>]);
          n = length h
      in learnFromTrade botId dec pr w =
           w\<lparr>botModels := (botModels w)(botId \<mapsto>
                model\<lparr>tradeHistory := h,
                      performanceMetrics :=
                        (if n < 10 then performanceMetrics model
                         else rollingMetrics (sliceLast 20 h))\<rparr>)\<rparr>
         \<and> sliceLast 20 h = drop (n - min 20 n) h
         \<and> length (sliceLast 20 h) = min 20 n)"
proof -
  assume m: "botModels w botId = Some model"
  define e where "e = \<lparr>o_decision = dec, o_profit = pr, o_timestamp = clock w\<rparr>"
  define h where "h = sliceLast 100 (tradeHistory model @ [e])"
  have cap: "(if length (tradeHistory model @ [e]) > 100
              then sliceLast 100 (tradeHistory model @ [e]) else tradeHistory model @ [e]) = h"
    by (simp add: h_def sliceLast_def)
  define w1 where "w1 = w\<lparr>botModels := (botModels w)(botId \<mapsto> model\<lparr>tradeHistory := h\<rparr>)\<rparr>"
  have l: "learnFromTrade botId dec pr w = updateBotModel botId w1"
    using m cap unfolding learnFromTrade_def w1_def e_def Let_def by simp
  have m1: "botModels w1 botId = Some (model\<lparr>tradeHistory := h\<rparr>)"
    by (simp add: w1_def)
  have u: "updateBotModel botId w1 =
       w\<lparr>botModels := (botModels w)(botId \<mapsto>
                model\<lparr>tradeHistory := h,
                      performanceMetrics :=
                        (if length h < 10 then performanceMetrics model
                         else rollingMetrics (sliceLast 20 h))\<rparr>)\<rparr>"
    unfolding updateBotModel_eq [OF m1] using m by (auto simp: w1_def fun_upd_idem)
  have s: "sliceLast 20 h = drop (length h - min 20 (length h)) h"
    by (simp add: sliceLast_def min_def)
  show ?thesis
    unfolding Let_def using l u s sliceLast_length [of 20 h]
    by (simp add: h_def e_def)
qed

theorem learnFromTrade_metrics_witness:
  "botModels nineWins 1 = Some (newModel\<lparr>tradeHistory := replicate 9 (sampleOutcome 5)\<rparr>)
   \<and> map_option performanceMetrics (botModels (learnFromTrade 1 sampleDecision (-1) nineWins) 1)
       = Some \<lparr>winRate = 90, avgProfit = 4.4, riskAdjustedReturn = 44 / 9\<rparr>"
proof -
  have m: "botModels nineWins 1 = Some (newModel\<lparr>tradeHistory := replicate 9 (sampleOutcome 5)\<rparr>)"
    by (simp add: nineWins_def)
  have c: "clock nineWins = 0"
    by (simp add: nineWins_def newEngine_clock)
  have h: "sliceLast 100 (replicate 9 (sampleOutcome 5) @ [sampleOutcome (-1)]) =
           replicate 9 (sampleOutcome 5) @ [sampleOutcome (-1)]"
    by (simp add: sliceLast_def)
  have r: "rollingMetrics (sliceLast 20 (replicate 9 (sampleOutcome 5) @ [sampleOutcome (-1)]))
           = \<lparr>winRate = 90, avgProfit = 4.4, riskAdjustedReturn = 44 / 9\<rparr>"
    by (simp add: sliceLast_def rollingMetrics_def Let_def sampleOutcome_def sum_list_replicate)
  show ?thesis
    using learnFromTrade_metrics [OF m, of sampleDecision "-1"] m
    by (simp add: c Let_def h r sampleOutcome_def [symmetric])
qed

text \<open>
  C6 as stated fails below ten entries: after the first learned trade (profit 5) of bot 1
  on the fresh engine the history has one entry and the metrics are still all 0, while
  over that one most recent entry the win rate is 100 and the average profit 5.
\<close>

theorem learnFromTrade_short_history:
  "botModels newEngine 1 = Some newModel
   \<and> performanceMetrics newModel = \<lparr>winRate = 0, avgProfit = 0, riskAdjustedReturn = 0\<rparr>
   \<and> botModels (learnFromTrade 1 sampleDecision 5 newEngine) 1
       = Some (newModel\<lparr>tradeHistory := [sampleOutcome 5]\<rparr>)
   \<and> rollingMetrics (sliceLast 20 [sampleOutcome 5])
       = \<lparr>winRate = 100, avgProfit = 5, riskAdjustedReturn = 5\<rparr>"
  by (simp add: newEngine_model1 learnFromTrade_def updateBotModel_def Let_def newEngine_clock
      sampleOutcome_def sliceLast_def rollingMetrics_def newModel_def)

section \<open>Loops over a fleet with distinct ids\<close>

text \<open>\<open>updateBot\<close> finds a bot by its id, so a loop that calls it once per bot writes every
  bot exactly when the ids are pairwise distinct; the lemmas below give the state after
  such a loop.\<close>

lemma assignFirst_distinct:
  "distinct (map bid xs) \<Longrightarrow> k < length xs \<Longrightarrow>
     assignFirst (bid (xs ! k)) f xs = xs[k := f (xs ! k)]"
proof (induction xs arbitrary: k)
  case Nil
  then show ?case by simp
next
  case (Cons x xs)
  show ?case
  proof (cases k)
    case 0
    then show ?thesis by simp
  next
    case (Suc j)
    with Cons.prems have j: "j < length xs" and dx: "distinct (map bid xs)"
      by auto
    have "bid (xs ! j) \<noteq> bid x"
      using Cons.prems(1) nth_mem [OF j] by (auto simp: image_iff)
    with Cons.IH [OF dx j] Suc show ?thesis by simp
  qed
qed

lemma partlyMapped_step:
  "k < length bs \<Longrightarrow> (partlyMapped h k bs)[k := h (bs ! k)] = partlyMapped h (Suc k) bs"
  by (simp add: partlyMapped_def take_Suc_conv_app_nth list_update_append
      Cons_nth_drop_Suc [symmetric])

lemma partlyMapped_nth: "k < length bs \<Longrightarrow> partlyMapped h k bs ! k = bs ! k"
  by (simp add: partlyMapped_def nth_append)

lemma partlyMapped_ids:
  "(\<And>b. bid (h b) = bid b) \<Longrightarrow> map bid (partlyMapped h k bs) = map bid bs"
proof -
  assume "\<And>b. bid (h b) = bid b"
  then have "map bid (map h (take k bs)) = map bid (take k bs)" by simp
  then have "map bid (partlyMapped h k bs) = map bid (take k bs) @ map bid (drop k bs)"
    by (simp add: partlyMapped_def)
  then show ?thesis by (simp flip: map_append)
qed

lemma partlyMapped_id_step:
  "k < length bs \<Longrightarrow> h (bs ! k) = bs ! k \<Longrightarrow> partlyMapped h (Suc k) bs = partlyMapped h k bs"
  using partlyMapped_step [of k bs h] partlyMapped_nth [of k bs h]
  by (metis list_update_id)

lemma updateBot_nth:
  assumes "distinct (map bid bs)" "k < length bs" "bots (dm w) = bs"
  shows "snd (updateBot (bid (bs ! k)) f w) = written (bs[k := f (bs ! k)]) w"
proof -
  have "find (\<lambda>b. bid b = bid (bs ! k)) bs \<noteq> None"
    using nth_mem [OF assms(2)] by (auto simp: find_None_iff)
  then obtain b where "find (\<lambda>b. bid b = bid (bs ! k)) bs = Some b" by auto
  then show ?thesis
    using assms by (simp add: updateBot_def assignFirst_distinct written_def saveData_def)
qed

lemma written_written: "written bs2 (written bs1 w) = written bs2 w"
  by (simp add: written_def)

lemma bots_written: "bots (dm (written bs' w)) = bs'"
  by (simp add: written_def)

lemma forEach_prefix:
  assumes d: "distinct (map bid (bots (dm w)))" and g: "\<And>bt b. bid (g bt b) = bid b"
    and k: "k \<le> length (bots (dm w))"
  shows "fold (\<lambda>i w'. (if P (bots (dm w') ! i)
                        then snd (updateBot (bid (bots (dm w') ! i)) (g (bots (dm w') ! i)) w')
                        else w')) [0..<k] w =
         (if \<exists>b\<in>set (take k (bots (dm w))). P b
          then written (partlyMapped (\<lambda>b. if P b then g b b else b) k (bots (dm w))) w
          else w)"
  using k
proof (induction k)
  case 0
  then show ?case by simp
next
  case (Suc k)
  define bs where "bs = bots (dm w)"
  define h where "h = (\<lambda>b. if P b then g b b else b)"
  define wk where "wk = (if \<exists>b\<in>set (take k bs). P b then written (partlyMapped h k bs) w else w)"
  have kl: "k < length bs" using Suc.prems by (simp add: bs_def)
  have hid: "\<And>b. bid (h b) = bid b" by (simp add: h_def g)
  have noP: "\<not> (\<exists>b\<in>set (take k bs). P b) \<Longrightarrow> partlyMapped h k bs = bs"
  proof -
    assume "\<not> (\<exists>b\<in>set (take k bs). P b)"
    then have "map h (take k bs) = take k bs"
      by (intro map_idI) (auto simp: h_def)
    then show ?thesis by (simp add: partlyMapped_def)
  qed
  have bk: "bots (dm wk) = partlyMapped h k bs"
    using noP by (auto simp: wk_def bots_written bs_def)
  have nk: "bots (dm wk) ! k = bs ! k"
    by (simp add: bk partlyMapped_nth kl)
  have dk: "distinct (map bid (partlyMapped h k bs))"
    using d by (simp add: partlyMapped_ids hid bs_def)
  have lk: "k < length (partlyMapped h k bs)"
    using kl by (simp add: partlyMapped_def)
  have tk: "set (take (Suc k) bs) = insert (bs ! k) (set (take k bs))"
    using kl by (simp add: take_Suc_conv_app_nth)
  have IH: "fold (\<lambda>i w'. (if P (bots (dm w') ! i)
                        then snd (updateBot (bid (bots (dm w') ! i)) (g (bots (dm w') ! i)) w')
                        else w')) [0..<k] w = wk"
    using Suc by (simp add: wk_def bs_def h_def)
  show ?case
  proof (cases "P (bs ! k)")
    case True
    have "snd (updateBot (bid (bs ! k)) (g (bs ! k)) wk)
          = written ((partlyMapped h k bs)[k := g (bs ! k) (bs ! k)]) wk"
      using updateBot_nth [OF dk lk bk, of "g (bs ! k)"] by (simp add: partlyMapped_nth kl)
    also have "(partlyMapped h k bs)[k := g (bs ! k) (bs ! k)] = partlyMapped h (Suc k) bs"
      using partlyMapped_step [OF kl, of h] True by (simp add: h_def)
    also have "written (partlyMapped h (Suc k) bs) wk = written (partlyMapped h (Suc k) bs) w"
      by (simp add: wk_def written_written)
    finally show ?thesis
      using True IH nk tk by (simp add: bs_def [symmetric] h_def [symmetric])
  next
    case False
    have "h (bs ! k) = bs ! k" using False by (simp add: h_def)
    then have "partlyMapped h (Suc k) bs = partlyMapped h k bs"
      using partlyMapped_id_step kl by blast
    then show ?thesis
      using False IH nk tk by (simp add: bs_def [symmetric] h_def [symmetric] wk_def)
  qed
qed

lemma forEachBot_distinct:
  assumes "distinct (map bid (bots (dm w)))" and "\<And>bt b. bid (g bt b) = bid b"
  shows "forEachBot (\<lambda>bt w'. if P bt then snd (updateBot (bid bt) (g bt) w') else w') w =
         (if \<exists>b\<in>set (bots (dm w)). P b
          then written (map (\<lambda>b. if P b then g b b else b) (bots (dm w))) w
          else w)"
proof -
  have "length (bots (dm w)) \<le> length (bots (dm w))" by simp
  from forEach_prefix [where g = g and P = P, OF assms(1) assms(2) this]
  show ?thesis by (simp add: forEachBot_def partlyMapped_def)
qed

lemma forEachBot_all:
  assumes "distinct (map bid (bots (dm w)))" and "\<And>bt b. bid (g bt b) = bid b"
  shows "forEachBot (\<lambda>bt w'. snd (updateBot (bid bt) (g bt) w')) w =
         (if bots (dm w) = [] then w else written (map (\<lambda>b. g b b) (bots (dm w))) w)"
proof -
  have e: "(\<exists>b\<in>set (bots (dm w)). True) = (bots (dm w) \<noteq> [])"
    by (cases "bots (dm w)") auto
  show ?thesis
    using forEachBot_distinct [where P = "\<lambda>_. True" and g = g, OF assms]
    unfolding e by simp
qed

lemma startAllBots_log:
  assumes "\<not> isRunning w" "distinct (map bid (bots (dm w)))"
  shows "bots (dm (startAllBots w)) = map (\<lambda>b. b\<lparr>status := ''active''\<rparr>) (bots (dm w))"
    and "aiDecisions (dm (startAllBots w)) =
           take 100
             (\<lparr>d_type = ''system'', d_message = ''AI Agent started continuous market monitoring'',
               d_confidence = 95, d_id = clock w, d_timestamp = clock w\<rparr>
              # \<lparr>d_type = ''system'', d_message = ''All trading bots activated'',
                 d_confidence = 95, d_id = clock w, d_timestamp = clock w\<rparr>
              # aiDecisions (dm w))"
    and "isRunning (startAllBots w)"
proof -
  have d1: "distinct (map bid (bots (dm (w\<lparr>isRunning := True\<rparr>))))"
    using assms(2) by simp
  note fe = forEachBot_all [where g = "\<lambda>bt b. b\<lparr>status := ''active''\<rparr>", OF d1, simplified]
  show "bots (dm (startAllBots w)) = map (\<lambda>b. b\<lparr>status := ''active''\<rparr>) (bots (dm w))"
    using assms(1)
    by (simp add: startAllBots_def Let_def fe startMonitoring_def startTradingCycle_def
        addAIDecision_eq written_def)
  show "aiDecisions (dm (startAllBots w)) =
           take 100
             (\<lparr>d_type = ''system'', d_message = ''AI Agent started continuous market monitoring'',
               d_confidence = 95, d_id = clock w, d_timestamp = clock w\<rparr>
              # \<lparr>d_type = ''system'', d_message = ''All trading bots activated'',
                 d_confidence = 95, d_id = clock w, d_timestamp = clock w\<rparr>
              # aiDecisions (dm w))"
    using assms(1)
    by (simp add: startAllBots_def Let_def fe startMonitoring_def startTradingCycle_def
        addAIDecision_eq written_def mkDecision_def)
  show "isRunning (startAllBots w)"
    using assms(1)
    by (simp add: startAllBots_def Let_def fe startMonitoring_def startTradingCycle_def
        addAIDecision_eq written_def)
qed

lemma newEngine_fields:
  "isRunning newEngine = False" "aiDecisions (dm newEngine) = []" "clock newEngine = 0"
  by (simp_all add: newEngine_def initializeBotModels_def defaultData_def)

lemma newEngine_distinct: "distinct (map bid (bots (dm newEngine)))"
  by (simp add: newEngine_ids)

section \<open>Starting the fleet\<close>

text \<open>
  C2, as the code has it. When the scheduler is not running and the bot ids are pairwise
  distinct, \<open>startAllBots\<close> sets the running flag, sets the status of every bot to
  \<open>active\<close> and changes no other field of a bot, and puts two decisions of category
  \<open>system\<close> at the head of the decision log (cut at 100 entries): "All trading bots
  activated" from the engine, and above it "AI Agent started continuous market
  monitoring" from \<open>startMonitoring\<close>.
\<close>

theorem startAllBots_effect:
  "\<not> isRunning w \<Longrightarrow> distinct (map bid (bots (dm w))) \<Longrightarrow>
     bots (dm (startAllBots w)) = map (\<lambda>b. b\<lparr>status := ''active''\<rparr>) (bots (dm w))
     \<and> aiDecisions (dm (startAllBots w)) =
           take 100
             (\<lparr>d_type = ''system'', d_message = ''AI Agent started continuous market monitoring'',
               d_confidence = 95, d_id = clock w, d_timestamp = clock w\<rparr>
              # \<lparr>d_type = ''system'', d_message = ''All trading bots activated'',
                 d_confidence = 95, d_id = clock w, d_timestamp = clock w\<rparr>
              # aiDecisions (dm w))
     \<and> isRunning (startAllBots w)"
  using startAllBots_log by blast

theorem startAllBots_effect_witness:
  "\<not> isRunning newEngine \<and> distinct (map bid (bots (dm newEngine)))
   \<and> map status (bots (dm (startAllBots newEngine))) =
       [''active'', ''active'', ''active'', ''active'', ''active'']
   \<and> map d_type (aiDecisions (dm (startAllBots newEngine))) = [''system'', ''system'']"
  using startAllBots_effect [of newEngine] newEngine_distinct
  by (simp add: newEngine_fields newEngine_bots defaultData_def defaultBot_def)

text \<open>
  C2 as stated fails: starting the fresh engine, whose decision log is empty, leaves two
  \<open>system\<close> decisions in the log, not one.
\<close>

theorem startAllBots_two_system_decisions:
  "\<not> isRunning newEngine
   \<and> aiDecisions (dm newEngine) = []
   \<and> length (filter (\<lambda>d. d_type d = ''system'') (aiDecisions (dm (startAllBots newEngine)))) = 2"
  using startAllBots_log(2) [of newEngine] newEngine_distinct
  by (simp add: newEngine_fields)

section \<open>Strategic decisions\<close>

lemma forEachBot_fields:
  assumes "distinct (map bid (bots (dm w)))" and "\<And>bt b. bid (g bt b) = bid b"
  shows "bots (dm (forEachBot (\<lambda>bt w'. if P bt then snd (updateBot (bid bt) (g bt) w') else w') w))
           = map (\<lambda>b. if P b then g b b else b) (bots (dm w))"
    and "aiDecisions (dm (forEachBot (\<lambda>bt w'. if P bt then snd (updateBot (bid bt) (g bt) w') else w') w))
           = aiDecisions (dm w)"
    and "clock (forEachBot (\<lambda>bt w'. if P bt then snd (updateBot (bid bt) (g bt) w') else w') w)
           = clock w"
proof -
  have n: "\<not> (\<exists>b\<in>set (bots (dm w)). P b) \<Longrightarrow>
           map (\<lambda>b. if P b then g b b else b) (bots (dm w)) = bots (dm w)"
    by (intro map_idI) auto
  note fe = forEachBot_distinct [where P = P and g = g, OF assms]
  show "bots (dm (forEachBot (\<lambda>bt w'. if P bt then snd (updateBot (bid bt) (g bt) w') else w') w))
           = map (\<lambda>b. if P b then g b b else b) (bots (dm w))"
    unfolding fe using n by (simp add: written_def)
  show "aiDecisions (dm (forEachBot (\<lambda>bt w'. if P bt then snd (updateBot (bid bt) (g bt) w') else w') w))
           = aiDecisions (dm w)"
    unfolding fe by (simp add: written_def)
  show "clock (forEachBot (\<lambda>bt w'. if P bt then snd (updateBot (bid bt) (g bt) w') else w') w)
           = clock w"
    unfolding fe by (simp add: written_def)
qed

lemma addAIDecision_fields:
  "bots (dm (addAIDecision d w)) = bots (dm w)"
  "aiDecisions (dm (addAIDecision d w)) =
     take 100 (d\<lparr>d_id := clock w, d_timestamp := clock w\<rparr> # aiDecisions (dm w))"
  "clock (addAIDecision d w) = clock w"
  by (simp_all add: addAIDecision_eq)

lemma activateDefensiveStrategies_fields:
  assumes "distinct (map bid (bots (dm w)))"
  shows "bots (dm (activateDefensiveStrategies w)) =
           map (\<lambda>b. if status b = ''active''
                     then b\<lparr>riskLevel := max 0.1 (riskLevel b - 0.15)\<rparr> else b) (bots (dm w))"
    and "aiDecisions (dm (activateDefensiveStrategies w)) =
           take 100 (\<lparr>d_type = ''strategy'',
                      d_message = ''Bear market detected: Activated defensive trading strategies'',
                      d_confidence = 75, d_id = clock w, d_timestamp = clock w\<rparr>
                     # aiDecisions (dm w))"
  using forEachBot_fields [where P = "\<lambda>b. status b = ''active''"
      and g = "\<lambda>bt b. b\<lparr>riskLevel := max 0.1 (riskLevel bt - 0.15)\<rparr>", OF assms]
  by (simp_all add: activateDefensiveStrategies_def addAIDecision_fields mkDecision_def)

lemma activateAggressiveStrategies_fields:
  assumes "distinct (map bid (bots (dm w)))"
  shows "bots (dm (activateAggressiveStrategies w)) =
           map (\<lambda>b. if status b = ''active''
                     then b\<lparr>riskLevel := min 0.9 (riskLevel b + 0.1)\<rparr> else b) (bots (dm w))"
  using forEachBot_fields [where P = "\<lambda>b. status b = ''active''"
      and g = "\<lambda>bt b. b\<lparr>riskLevel := min 0.9 (riskLevel bt + 0.1)\<rparr>", OF assms]
  by (simp_all add: activateAggressiveStrategies_def addAIDecision_fields)

lemma adjustRiskParameters_fields:
  assumes "distinct (map bid (bots (dm w)))"
  shows "bots (dm (adjustRiskParameters a w)) =
           map (\<lambda>b. if status b = ''active''
                     then b\<lparr>riskLevel := max 0.1 (min 0.9 (riskLevel b + a))\<rparr> else b)
               (bots (dm w))"
    and "aiDecisions (dm (adjustRiskParameters a w)) = aiDecisions (dm w)"
  using forEachBot_fields [where P = "\<lambda>b. status b = ''active''"
      and g = "\<lambda>bt b. b\<lparr>riskLevel := max 0.1 (min 0.9 (riskLevel bt + a))\<rparr>", OF assms]
  by (simp_all add: adjustRiskParameters_def)

lemma map_keeps_ids: "(\<And>b. bid (h b) = bid b) \<Longrightarrow> map bid (map h bs) = map bid bs"
  by simp

lemma makeStrategicDecisions_bear:
  assumes "marketAnalysis w = Some ma" "ma_sentiment ma = ''bear''"
  shows "makeStrategicDecisions w =
           Inr (if ma_volatility ma > 0.08
                  then adjustRiskParameters (-0.1) (activateDefensiveStrategies w)
                else if ma_volatility ma < 0.03
                  then adjustRiskParameters 0.05 (activateDefensiveStrategies w)
                else activateDefensiveStrategies w)"
  using assms by (simp add: makeStrategicDecisions_def Let_def)

lemma makeStrategicDecisions_strong_bear:
  "marketAnalysis w = Some ma \<Longrightarrow> ma_sentiment ma = ''strong_bear'' \<Longrightarrow>
     makeStrategicDecisions w =
       Inl (TypeError ''this.activateHedgingStrategies is not a function'')"
  by (simp add: makeStrategicDecisions_def Let_def)

lemma bear_volatility:
  "calculateMarketSentiment t v = ''bear'' \<Longrightarrow> v > 0.05"
  by (simp add: calculateMarketSentiment_def split: if_splits)

lemma makeStrategicDecisions_bear_fields:
  assumes d: "distinct (map bid (bots (dm w)))" and m: "marketAnalysis w = Some ma"
    and s: "ma_sentiment ma = ''bear''"
  shows "bots (dm (projr (makeStrategicDecisions w))) =
         map (\<lambda>b. if status b = ''active''
                   then b\<lparr>riskLevel :=
                          (if ma_volatility ma > 0.08
                             then max 0.1 (min 0.9 (max 0.1 (riskLevel b - 0.15) - 0.1))
                           else if ma_volatility ma < 0.03
                             then max 0.1 (min 0.9 (max 0.1 (riskLevel b - 0.15) + 0.05))
                           else max 0.1 (riskLevel b - 0.15))\<rparr>
                   else b) (bots (dm w))"
    and "aiDecisions (dm (projr (makeStrategicDecisions w))) =
         take 100 (\<lparr>d_type = ''strategy'',
                    d_message = ''Bear market detected: Activated defensive trading strategies'',
                    d_confidence = 75, d_id = clock w, d_timestamp = clock w\<rparr>
                   # aiDecisions (dm w))"
proof -
  note df = activateDefensiveStrategies_fields [OF d]
  have d1: "distinct (map bid (bots (dm (activateDefensiveStrategies w))))"
    unfolding df(1) using d by (simp add: comp_def if_distrib [of bid] cong: if_cong)
  note af = adjustRiskParameters_fields [OF d1]
  show "bots (dm (projr (makeStrategicDecisions w))) =
         map (\<lambda>b. if status b = ''active''
                   then b\<lparr>riskLevel :=
                          (if ma_volatility ma > 0.08
                             then max 0.1 (min 0.9 (max 0.1 (riskLevel b - 0.15) - 0.1))
                           else if ma_volatility ma < 0.03
                             then max 0.1 (min 0.9 (max 0.1 (riskLevel b - 0.15) + 0.05))
                           else max 0.1 (riskLevel b - 0.15))\<rparr>
                   else b) (bots (dm w))"
    unfolding makeStrategicDecisions_bear [OF m s] sum.sel if_distrib [of "\<lambda>x. bots (dm x)"]
      af(1) df(1) map_map
    by (cases "ma_volatility ma > 0.08"; cases "ma_volatility ma < 0.03")
       (simp_all add: comp_def if_distrib [of "\<lambda>b. status b"] cong: if_cong)
  show "aiDecisions (dm (projr (makeStrategicDecisions w))) =
         take 100 (\<lparr>d_type = ''strategy'',
                    d_message = ''Bear market detected: Activated defensive trading strategies'',
                    d_confidence = 75, d_id = clock w, d_timestamp = clock w\<rparr>
                   # aiDecisions (dm w))"
    unfolding makeStrategicDecisions_bear [OF m s] sum.sel if_distrib [of "\<lambda>x. aiDecisions (dm x)"]
      af(2) df(2)
    by simp
qed

lemma bearMarket_fields:
  "map bid (bots (dm (bearMarket v))) = [1, 2, 3, 4, 5]"
  "map status (bots (dm (bearMarket v))) = [''active'', ''active'', ''active'', ''active'', ''active'']"
  "map riskLevel (bots (dm (bearMarket v))) = [0.3, 0.5, 0.4, 0.6, 0.7]"
  "marketAnalysis (bearMarket v) = Some \<lparr>ma_volatility = v, ma_trend = -0.3, ma_volume = 0.5,
                                       ma_sentiment = ''bear'', ma_timestamp = 0\<rparr>"
  "aiDecisions (dm (bearMarket v)) = []"
  by (simp_all add: bearMarket_def defaultData_def defaultBot_def newEngine_fields)

lemma bearMarket_bots:
  "bots (dm (bearMarket v)) = map (\<lambda>b. b\<lparr>status := ''active''\<rparr>) (bots defaultData)"
  by (simp add: bearMarket_def)

lemma bearMarket_risks:
  "map riskLevel (bots (dm (projr (makeStrategicDecisions (bearMarket v))))) =
     map (\<lambda>r. if v > 0.08 then max 0.1 (min 0.9 (max 0.1 (r - 0.15) - 0.1))
               else if v < 0.03 then max 0.1 (min 0.9 (max 0.1 (r - 0.15) + 0.05))
               else max 0.1 (r - 0.15)) [0.3, 0.5, 0.4, 0.6, 0.7]"
proof -
  have d: "distinct (map bid (bots (dm (bearMarket v))))"
    by (simp add: bearMarket_fields)
  show ?thesis
    unfolding makeStrategicDecisions_bear_fields(1) [OF d bearMarket_fields(4), simplified]
    unfolding bearMarket_bots by (simp add: defaultData_def defaultBot_def)
qed

text \<open>
  C1, as the code has it by design, for the sentiment \<open>bear\<close>. In a fleet with pairwise
  distinct ids, when the analysis is classified \<open>bear\<close>, \<open>makeStrategicDecisions\<close> returns
  without an error; it lowers the risk level of every active bot by 0.15, not below 0.1,
  and then, when the volatility is above 0.08, by a further 0.1 clamped to
  \<open>[0.1, 0.9]\<close>; inactive bots keep their risk level; exactly one \<open>strategy\<close> decision
  is put at the head of the decision log. (What happens for \<open>strong_bear\<close> is lemma
  \<open>makeStrategicDecisions_strong_bear\<close>: the call throws.)
\<close>

theorem bear_decisions:
  "distinct (map bid (bots (dm w))) \<Longrightarrow> marketAnalysis w = Some ma \<Longrightarrow>
   ma_sentiment ma = calculateMarketSentiment (ma_trend ma) (ma_volatility ma) \<Longrightarrow>
   ma_sentiment ma = ''bear'' \<Longrightarrow>
     \<not> isl (makeStrategicDecisions w)
     \<and> bots (dm (projr (makeStrategicDecisions w))) =
         map (\<lambda>b. if status b = ''active''
                   then b\<lparr>riskLevel :=
                          (if ma_volatility ma > 0.08
                           then max 0.1 (min 0.9 (max 0.1 (riskLevel b - 0.15) - 0.1))
                           else max 0.1 (riskLevel b - 0.15))\<rparr>
                   else b) (bots (dm w))
     \<and> aiDecisions (dm (projr (makeStrategicDecisions w))) =
         take 100 (\<lparr>d_type = ''strategy'',
                    d_message = ''Bear market detected: Activated defensive trading strategies'',
                    d_confidence = 75, d_id = clock w, d_timestamp = clock w\<rparr>
                   # aiDecisions (dm w))"
proof -
  assume d: "distinct (map bid (bots (dm w)))" and m: "marketAnalysis w = Some ma"
    and c: "ma_sentiment ma = calculateMarketSentiment (ma_trend ma) (ma_volatility ma)"
    and s: "ma_sentiment ma = ''bear''"
  have v: "\<not> ma_volatility ma < 0.03" using c s bear_volatility [of "ma_trend ma"] by force
  have i: "\<not> isl (makeStrategicDecisions w)"
    unfolding makeStrategicDecisions_bear [OF m s] by simp
  show ?thesis
    using i v makeStrategicDecisions_bear_fields [OF d m s] by (simp cong: if_cong)
qed

theorem bear_decisions_witness:
  "distinct (map bid (bots (dm (bearMarket 0.06))))
   \<and> marketAnalysis (bearMarket 0.06) =
       Some \<lparr>ma_volatility = 0.06, ma_trend = -0.3, ma_volume = 0.5,
             ma_sentiment = ''bear'', ma_timestamp = 0\<rparr>
   \<and> calculateMarketSentiment (-0.3) 0.06 = ''bear''
   \<and> \<not> isl (makeStrategicDecisions (bearMarket 0.06))
   \<and> map riskLevel (bots (dm (projr (makeStrategicDecisions (bearMarket 0.06))))) =
       [0.15, 0.35, 0.25, 0.45, 0.55]
   \<and> map d_type (aiDecisions (dm (projr (makeStrategicDecisions (bearMarket 0.06))))) =
       [''strategy'']"
proof -
  have d: "distinct (map bid (bots (dm (bearMarket 0.06))))"
    by (simp add: bearMarket_fields)
  have c: "calculateMarketSentiment (-0.3) 0.06 = ''bear''"
    by (simp add: calculateMarketSentiment_def)
  from bear_decisions [OF d bearMarket_fields(4)] c
  have "\<not> isl (makeStrategicDecisions (bearMarket 0.06))
     \<and> bots (dm (projr (makeStrategicDecisions (bearMarket 0.06)))) =
         map (\<lambda>b. if status b = ''active''
                   then b\<lparr>riskLevel := max 0.1 (riskLevel b - 0.15)\<rparr> else b)
           (bots (dm (bearMarket 0.06)))
     \<and> aiDecisions (dm (projr (makeStrategicDecisions (bearMarket 0.06)))) =
         take 100 (\<lparr>d_type = ''strategy'',
                    d_message = ''Bear market detected: Activated defensive trading strategies'',
                    d_confidence = 75, d_id = clock (bearMarket 0.06),
                    d_timestamp = clock (bearMarket 0.06)\<rparr>
                   # aiDecisions (dm (bearMarket 0.06)))"
    by simp
  then show ?thesis
    using d c by (simp add: bearMarket_fields(4,5) bearMarket_bots defaultData_def defaultBot_def)
qed

text \<open>
  C1 as stated fails for a \<open>bear\<close> analysis of volatility 0.3: the second bot goes from
  0.5 to 0.25, a step of 0.25, because the volatility rule lowers every active bot once
  more after the defensive strategy has lowered it by 0.15.
\<close>

theorem bear_high_volatility:
  "calculateMarketSentiment (-0.3) 0.3 = ''bear''
   \<and> marketAnalysis (bearMarket 0.3) =
       Some \<lparr>ma_volatility = 0.3, ma_trend = -0.3, ma_volume = 0.5,
             ma_sentiment = ''bear'', ma_timestamp = 0\<rparr>
   \<and> map status (bots (dm (bearMarket 0.3))) =
       [''active'', ''active'', ''active'', ''active'', ''active'']
   \<and> map riskLevel (bots (dm (bearMarket 0.3))) = [0.3, 0.5, 0.4, 0.6, 0.7]
   \<and> map riskLevel (bots (dm (projr (makeStrategicDecisions (bearMarket 0.3))))) =
       [0.1, 0.25, 0.15, 0.35, 0.45]"
  by (simp add: bearMarket_fields bearMarket_risks calculateMarketSentiment_def)

section \<open>The risk level stays in range\<close>

lemma keepsRisk_refl: "keepsRisk bs bs"
  by (simp add: keepsRisk_def list_all2_same)

lemma keepsRisk_trans:
  assumes "keepsRisk as bs" "keepsRisk bs cs"
  shows "keepsRisk as cs"
  unfolding keepsRisk_def
  by (rule list_all2_trans [OF _ assms [unfolded keepsRisk_def]]) simp

lemma keepsRisk_ids: "keepsRisk bs bs' \<Longrightarrow> map bid bs' = map bid bs"
  unfolding keepsRisk_def by (induction rule: list_all2_induct) auto

lemma keepsRisk_map:
  "(\<And>b. b \<in> set bs \<Longrightarrow> bid (h b) = bid b \<and> (riskOk b \<longrightarrow> riskOk (h b)))
   \<Longrightarrow> keepsRisk bs (map h bs)"
  by (simp add: keepsRisk_def list_all2_map2 list_all2_same)

lemma keepsRisk_assignFirst:
  "find (\<lambda>b. bid b = X) bs = Some bt \<Longrightarrow> bid (f bt) = bid bt \<Longrightarrow> (riskOk bt \<longrightarrow> riskOk (f bt))
   \<Longrightarrow> keepsRisk bs (assignFirst X f bs)"
proof (induction bs)
  case Nil
  then show ?case by simp
next
  case (Cons a bs)
  show ?case
  proof (cases "bid a = X")
    case True
    with Cons.prems show ?thesis
      using keepsRisk_refl [of bs] by (simp add: keepsRisk_def)
  next
    case False
    with Cons show ?thesis by (simp add: keepsRisk_def)
  qed
qed

lemma keepsRisk_find:
  "keepsRisk bs bs' \<Longrightarrow> distinct (map bid bs) \<Longrightarrow> b \<in> set bs \<Longrightarrow>
     \<exists>b'. find (\<lambda>x. bid x = bid b) bs' = Some b' \<and> (riskOk b \<longrightarrow> riskOk b')"
  unfolding keepsRisk_def
proof (induction rule: list_all2_induct)
  case Nil
  then show ?case by simp
next
  case (Cons x xs y ys)
  show ?case
  proof (cases "b = x")
    case True
    with Cons.hyps show ?thesis by simp
  next
    case False
    with Cons.prems have "b \<in> set xs" "bid x \<noteq> bid b" "distinct (map bid xs)"
      by (auto simp: image_iff)
    with Cons.IH Cons.hyps(1) show ?thesis by simp
  qed
qed

lemma keepsRisk_aggressive:
  "distinct (map bid (bots (dm w))) \<Longrightarrow>
     keepsRisk (bots (dm w)) (bots (dm (activateAggressiveStrategies w)))"
  unfolding activateAggressiveStrategies_fields
  by (rule keepsRisk_map) (auto simp: riskOk_def min_def max_def)

lemma keepsRisk_defensive:
  "distinct (map bid (bots (dm w))) \<Longrightarrow>
     keepsRisk (bots (dm w)) (bots (dm (activateDefensiveStrategies w)))"
  unfolding activateDefensiveStrategies_fields(1)
  by (rule keepsRisk_map) (auto simp: riskOk_def min_def max_def)

lemma keepsRisk_balanced:
  "keepsRisk (bots (dm w)) (bots (dm (activateBalancedStrategies w)))"
  by (simp add: activateBalancedStrategies_def addAIDecision_fields keepsRisk_refl)

lemma keepsRisk_adjust:
  "distinct (map bid (bots (dm w))) \<Longrightarrow>
     keepsRisk (bots (dm w)) (bots (dm (adjustRiskParameters a w)))"
  unfolding adjustRiskParameters_fields(1)
  by (rule keepsRisk_map) (auto simp: riskOk_def min_def max_def)

lemma keepsRisk_then_adjust:
  assumes "distinct (map bid (bots (dm w)))" "keepsRisk (bots (dm w)) (bots (dm w1))"
  shows "keepsRisk (bots (dm w))
           (bots (dm (if v > 0.08 then adjustRiskParameters (-0.1) w1
                      else if v < 0.03 then adjustRiskParameters 0.05 w1 else w1)))"
proof -
  have d1: "distinct (map bid (bots (dm w1)))"
    using assms keepsRisk_ids [of "bots (dm w)" "bots (dm w1)"] by simp
  have "keepsRisk (bots (dm w)) (bots (dm (adjustRiskParameters a w1)))" for a
    using keepsRisk_trans [OF assms(2) keepsRisk_adjust [OF d1]] .
  then show ?thesis
    using assms(2) by simp
qed

lemma makeStrategicDecisions_Inr:
  assumes "makeStrategicDecisions w = Inr w'" "marketAnalysis w = Some ma"
  obtains w1 where
    "w1 = activateAggressiveStrategies w \<or> w1 = activateDefensiveStrategies w
       \<or> w1 = activateBalancedStrategies w"
    "w' = (if ma_volatility ma > 0.08 then adjustRiskParameters (-0.1) w1
           else if ma_volatility ma < 0.03 then adjustRiskParameters 0.05 w1 else w1)"
proof -
  consider "ma_sentiment ma = ''strong_bull''" | "ma_sentiment ma = ''bull''"
    | "ma_sentiment ma = ''bear''" | "ma_sentiment ma = ''strong_bear''"
    | "ma_sentiment ma \<noteq> ''strong_bull''" "ma_sentiment ma \<noteq> ''bull''"
      "ma_sentiment ma \<noteq> ''bear''" "ma_sentiment ma \<noteq> ''strong_bear''"
    by blast
  then show thesis
  proof cases
    case 1
    with assms have "w' = (if ma_volatility ma > 0.08
           then adjustRiskParameters (-0.1) (activateAggressiveStrategies w)
           else if ma_volatility ma < 0.03
           then adjustRiskParameters 0.05 (activateAggressiveStrategies w)
           else activateAggressiveStrategies w)"
      by (simp add: makeStrategicDecisions_def Let_def)
    then show thesis using that by blast
  next
    case 2
    with assms show thesis by (simp add: makeStrategicDecisions_def Let_def)
  next
    case 3
    with assms have "w' = (if ma_volatility ma > 0.08
           then adjustRiskParameters (-0.1) (activateDefensiveStrategies w)
           else if ma_volatility ma < 0.03
           then adjustRiskParameters 0.05 (activateDefensiveStrategies w)
           else activateDefensiveStrategies w)"
      by (simp add: makeStrategicDecisions_def Let_def)
    then show thesis using that by blast
  next
    case 4
    with assms show thesis by (simp add: makeStrategicDecisions_def Let_def)
  next
    case 5
    with assms have "w' = (if ma_volatility ma > 0.08
           then adjustRiskParameters (-0.1) (activateBalancedStrategies w)
           else if ma_volatility ma < 0.03
           then adjustRiskParameters 0.05 (activateBalancedStrategies w)
           else activateBalancedStrategies w)"
      by (simp add: makeStrategicDecisions_def Let_def)
    then show thesis using that by blast
  qed
qed

lemma keepsRisk_decide:
  assumes "distinct (map bid (bots (dm w)))" "makeStrategicDecisions w = Inr w'"
  shows "keepsRisk (bots (dm w)) (bots (dm w'))"
proof (cases "marketAnalysis w")
  case None
  with assms(2) show ?thesis
    by (auto simp: makeStrategicDecisions_def keepsRisk_balanced)
next
  case (Some ma)
  from makeStrategicDecisions_Inr [OF assms(2) Some] obtain w1 where
    w1: "w1 = activateAggressiveStrategies w \<or> w1 = activateDefensiveStrategies w
       \<or> w1 = activateBalancedStrategies w"
    and w': "w' = (if ma_volatility ma > 0.08 then adjustRiskParameters (-0.1) w1
           else if ma_volatility ma < 0.03 then adjustRiskParameters 0.05 w1 else w1)"
    by blast
  have "keepsRisk (bots (dm w)) (bots (dm w1))"
    using w1 keepsRisk_aggressive [OF assms(1)] keepsRisk_defensive [OF assms(1)]
      keepsRisk_balanced [of w] by blast
  then show ?thesis
    unfolding w' by (rule keepsRisk_then_adjust [OF assms(1)])
qed

lemma keepsRisk_optimize:
  "keepsRisk (bots (dm w)) (bots (dm (snd (optimizeBot botId w))))"
proof (cases "find (\<lambda>b. bid b = botId) (bots (dm w))")
  case None
  then show ?thesis by (simp add: optimizeBot_def Let_def keepsRisk_refl)
next
  case (Some bt)
  show ?thesis
  proof (cases "botModels w botId")
    case None
    with Some show ?thesis by (simp add: optimizeBot_def Let_def keepsRisk_refl)
  next
    case (Some model)
    have lo: "keepsRisk (bots (dm w))
                (assignFirst botId (\<lambda>b. b\<lparr>riskLevel := max 0.1 (riskLevel bt - 0.2)\<rparr>) (bots (dm w)))"
      using \<open>find (\<lambda>b. bid b = botId) (bots (dm w)) = Some bt\<close>
      by (rule keepsRisk_assignFirst) (auto simp: riskOk_def min_def max_def)
    have hi: "keepsRisk (bots (dm w))
                (assignFirst botId (\<lambda>b. b\<lparr>riskLevel := min 0.9 (riskLevel bt + 0.15)\<rparr>) (bots (dm w)))"
      using \<open>find (\<lambda>b. bid b = botId) (bots (dm w)) = Some bt\<close>
      by (rule keepsRisk_assignFirst) (auto simp: riskOk_def min_def max_def)
    show ?thesis
      using Some \<open>find (\<lambda>b. bid b = botId) (bots (dm w)) = Some bt\<close> lo hi
      by (simp add: optimizeBot_def Let_def updateBot_def saveData_def keepsRisk_refl)
  qed
qed

lemma keepsRisk_step:
  "distinct (map bid (bots (dm w))) \<Longrightarrow> keepsRisk (bots (dm w)) (bots (dm (applyAdjustment a w)))"
proof (cases a)
  case (Decide ma)
  assume d: "distinct (map bid (bots (dm w)))"
  then have d': "distinct (map bid (bots (dm (w\<lparr>marketAnalysis := ma\<rparr>))))" by simp
  show ?thesis
    using Decide keepsRisk_decide [OF d'] keepsRisk_refl [of "bots (dm w)"]
    by (auto split: sum.splits)
next
  case (Adjust x)
  assume "distinct (map bid (bots (dm w)))"
  then show ?thesis using Adjust by (simp add: keepsRisk_adjust)
next
  case (Optimize i)
  then show ?thesis by (simp add: keepsRisk_optimize)
qed

lemma keepsRisk_fold:
  "distinct (map bid (bots (dm w))) \<Longrightarrow>
     keepsRisk (bots (dm w)) (bots (dm (fold applyAdjustment adjs w)))"
proof (induction adjs arbitrary: w)
  case Nil
  then show ?case by (simp add: keepsRisk_refl)
next
  case (Cons a adjs)
  have s: "keepsRisk (bots (dm w)) (bots (dm (applyAdjustment a w)))"
    using Cons.prems by (rule keepsRisk_step)
  then have "distinct (map bid (bots (dm (applyAdjustment a w))))"
    using Cons.prems keepsRisk_ids [of "bots (dm w)" "bots (dm (applyAdjustment a w))"] by simp
  then have "keepsRisk (bots (dm (applyAdjustment a w)))
               (bots (dm (fold applyAdjustment adjs (applyAdjustment a w))))"
    by (rule Cons.IH)
  with s show ?case using keepsRisk_trans by simp
qed

text \<open>
  C3. In a fleet with pairwise distinct ids, take a bot whose risk level lies in
  \<open>[0.1, 0.9]\<close> and any sequence of adaptive adjustments: strategic decisions under any
  market analyses, global risk adjustments by any amounts, and manual optimisations of
  any bot ids. After the sequence the fleet still holds a bot with that id and its risk
  level lies in \<open>[0.1, 0.9]\<close>. The sequence is arbitrary, so this holds after every
  adjustment of a run.
\<close>

theorem riskLevel_stays_in_range:
  "distinct (map bid (bots (dm w))) \<Longrightarrow> b \<in> set (bots (dm w)) \<Longrightarrow>
   0.1 \<le> riskLevel b \<Longrightarrow> riskLevel b \<le> 0.9 \<Longrightarrow>
     (case find (\<lambda>b'. bid b' = bid b) (bots (dm (fold applyAdjustment adjs w))) of
        None \<Rightarrow> False
      | Some b' \<Rightarrow> 0.1 \<le> riskLevel b' \<and> riskLevel b' \<le> 0.9)"
  using keepsRisk_find [OF keepsRisk_fold, of w b adjs]
  by (auto simp: riskOk_def)

theorem riskLevel_stays_in_range_witness:
  "distinct (map bid (bots (dm (bearMarket 0.3))))
   \<and> (defaultBot 2 ''Beta Momentum'' ''momentum'' ''Trend Following'' 0.5)\<lparr>status := ''active''\<rparr>
       \<in> set (bots (dm (bearMarket 0.3)))
   \<and> (case find (\<lambda>b'. bid b' = 2)
               (bots (dm (fold applyAdjustment
                  [Decide (marketAnalysis (bearMarket 0.3)), Optimize 2, Adjust 0.05]
                  (bearMarket 0.3)))) of
        None \<Rightarrow> False
      | Some b' \<Rightarrow> 0.1 \<le> riskLevel b' \<and> riskLevel b' \<le> 0.9)"
proof -
  define b2 where
    "b2 = (defaultBot 2 ''Beta Momentum'' ''momentum'' ''Trend Following'' 0.5)\<lparr>status := ''active''\<rparr>"
  have h1: "distinct (map bid (bots (dm (bearMarket 0.3))))"
    by (simp add: bearMarket_fields)
  have h2: "b2 \<in> set (bots (dm (bearMarket 0.3)))"
    by (simp add: b2_def bearMarket_bots defaultData_def)
  have h3: "0.1 \<le> riskLevel b2" and h4: "riskLevel b2 \<le> 0.9" and i: "bid b2 = 2"
    by (simp_all add: b2_def defaultBot_def)
  note c = riskLevel_stays_in_range [OF h1 h2 h3 h4,
      of "[Decide (marketAnalysis (bearMarket 0.3)), Optimize 2, Adjust 0.05]", unfolded i]
  show ?thesis
    using h1 h2 [unfolded b2_def] c by blast
qed

section \<open>Success rates\<close>

lemma toFixed_close: "\<bar>toFixed 2 x - x\<bar> \<le> 1 / 200"
proof -
  have fl: "\<bar>real_of_int \<lfloor>y * 100 + 1 / 2\<rfloor> / 100 - y\<bar> \<le> 1 / 200" for y :: real
    by linarith
  consider "x > 0" | "x = 0" | "x < 0" by linarith
  then show ?thesis
  proof cases
    case 1
    then have e: "toFixed 2 x = real_of_int \<lfloor>x * 100 + 1 / 2\<rfloor> / 100"
      by (simp add: toFixed_def)
    show ?thesis unfolding e by (rule fl)
  next
    case 2
    then show ?thesis by (simp add: toFixed_def)
  next
    case 3
    define a where "a = real_of_int \<lfloor>(- x) * 100 + 1 / 2\<rfloor> / 100"
    have e: "toFixed 2 x = - a"
      using 3 by (simp add: toFixed_def a_def)
    have "\<bar>a - (- x)\<bar> \<le> 1 / 200"
      unfolding a_def by (rule fl)
    then show ?thesis unfolding e by linarith
  qed
qed

lemma dm_updateBotModel: "dm (updateBotModel botId w) = dm w"
  by (simp add: updateBotModel_def Let_def split: option.splits)

lemma dm_learnFromTrade: "dm (learnFromTrade botId dec pr w) = dm w"
  by (simp add: learnFromTrade_def Let_def dm_updateBotModel split: option.splits)

lemma executeBotTrade_executed:
  assumes g: "generateTradeDecision bt mc rnd w = Inr dec" and e: "td_execute dec"
    and f: "find (\<lambda>b. bid b = bid bt) (bots (dm w)) = Some b0"
  shows "\<not> isl (executeBotTrade bt mc rnd w)"
    and "bots (dm (projr (executeBotTrade bt mc rnd w))) =
           assignFirst (bid bt)
             (\<lambda>b. b\<lparr>profit := totalProfit (getBotPerformance (bid bt) w)
                                + calculateTradeProfit bt dec (r_market rnd),
                     trades := real (totalTrades (getBotPerformance (bid bt) w) + 1),
                     successRate := toFixed 2
                       (real (profitableTrades (getBotPerformance (bid bt) w)
                              + (if calculateTradeProfit bt dec (r_market rnd) > 0 then 1 else 0))
                        / real (totalTrades (getBotPerformance (bid bt) w) + 1) * 100),
                     performance := calculatePerformanceScore bt
                       (real (profitableTrades (getBotPerformance (bid bt) w)
                              + (if calculateTradeProfit bt dec (r_market rnd) > 0 then 1 else 0))
                        / real (totalTrades (getBotPerformance (bid bt) w) + 1) * 100)
                       (calculateTradeProfit bt dec (r_market rnd))\<rparr>)
             (bots (dm w))"
    and "tradingHistory (dm (projr (executeBotTrade bt mc rnd w))) =
           take 1000
             (\<lparr>t_botId = bid bt, t_botName = name bt, t_symbol = td_symbol dec,
               t_type = td_type dec, t_amount = td_amount dec,
               t_profit = calculateTradeProfit bt dec (r_market rnd),
               t_success = (calculateTradeProfit bt dec (r_market rnd) > 0),
               t_id = clock w, t_timestamp = clock w\<rparr>
              # tradingHistory (dm w))"
  using g e f
  by (simp_all add: executeBotTrade_def Let_def dm_learnFromTrade addTrade_def updateBot_def
      saveData_def)

lemma toFixed_samples:
  "toFixed 2 (real 2 / real 1001 * 100) = 0.2"
  "toFixed 2 (real 1 / real 1001 * 100) = 0.1"
  "toFixed 2 (-0.23) = -0.23"
proof -
  have "\<lfloor>(200 / 1001 :: real) * 100 + 1 / 2\<rfloor> = 20" by linarith
  then show "toFixed 2 (real 2 / real 1001 * 100) = 0.2" by (simp add: toFixed_def)
  have "\<lfloor>(100 / 1001 :: real) * 100 + 1 / 2\<rfloor> = 10" by linarith
  then show "toFixed 2 (real 1 / real 1001 * 100) = 0.1" by (simp add: toFixed_def)
  have "\<lfloor>(23 / 100 :: real) * 100 + 1 / 2\<rfloor> = 23" by linarith
  then show "toFixed 2 (-0.23) = -0.23" by (simp add: toFixed_def)
qed

lemma momentum_decision:
  "btype bt = ''momentum'' \<Longrightarrow>
     generateTradeDecision bt sampleConditions sampleDraws w =
       Inr \<lparr>td_execute = True, td_type = ''buy'', td_symbol = getRandomSymbol 0 w,
            td_amount = 100, td_confidence = 54\<rparr>"
  by (simp add: generateTradeDecision_def sampleConditions_def sampleDraws_def mathRound_def)

lemma losing_profit:
  "riskLevel bt = 0.9 \<Longrightarrow> td_confidence dec = 54 \<Longrightarrow> calculateTradeProfit bt dec 0 = -0.23"
proof -
  assume r: "riskLevel bt = 0.9" and c: "td_confidence dec = 54"
  have "td_confidence dec / 10 * (1 - riskLevel bt) * (1 + (0 - 0.5)) - 0.5 = (-0.23 :: real)"
    unfolding r c by simp
  then show ?thesis
    unfolding calculateTradeProfit_def Let_def by (simp only: toFixed_samples(3))
qed

lemma losing_trade:
  assumes b: "bots (dm w) = [b]" "bid b = 1" "btype b = ''momentum''" "riskLevel b = 0.9"
  defines "w' \<equiv> projr (executeBotTrade b sampleConditions sampleDraws w)"
  shows "executeBotTrade b sampleConditions sampleDraws w = Inr w'"
    and "map bid (bots (dm w')) = [1]" and "map btype (bots (dm w')) = [''momentum'']"
    and "map riskLevel (bots (dm w')) = [0.9]"
    and "map successRate (bots (dm w')) =
           [toFixed 2 (real (profitableTrades (getBotPerformance 1 w))
                       / real (totalTrades (getBotPerformance 1 w) + 1) * 100)]"
    and "map t_botId (tradingHistory (dm w')) = take 1000 (1 # map t_botId (tradingHistory (dm w)))"
    and "map t_profit (tradingHistory (dm w')) =
           take 1000 (-0.23 # map t_profit (tradingHistory (dm w)))"
proof -
  note g = momentum_decision [OF b(3), of w]
  have f: "find (\<lambda>x. bid x = bid b) (bots (dm w)) = Some b"
    by (simp add: b)
  have p: "calculateTradeProfit b
             \<lparr>td_execute = True, td_type = ''buy'', td_symbol = getRandomSymbol 0 w,
              td_amount = 100, td_confidence = 54\<rparr> (r_market sampleDraws) = -0.23"
    using losing_profit [OF b(4)] by (simp add: sampleDraws_def)
  note x = executeBotTrade_executed [OF g _ f, simplified, unfolded p]
  show "executeBotTrade b sampleConditions sampleDraws w = Inr w'"
    using x(1) by (simp add: w'_def)
  show "map bid (bots (dm w')) = [1]" "map btype (bots (dm w')) = [''momentum'']"
    "map riskLevel (bots (dm w')) = [0.9]"
    unfolding w'_def x(2) by (simp_all add: b)
  show "map successRate (bots (dm w')) =
           [toFixed 2 (real (profitableTrades (getBotPerformance 1 w))
                       / real (totalTrades (getBotPerformance 1 w) + 1) * 100)]"
    unfolding w'_def x(2) by (simp add: b)
  show "map t_botId (tradingHistory (dm w')) = take 1000 (1 # map t_botId (tradingHistory (dm w)))"
    unfolding w'_def x(3) by (simp add: b take_map)
  show "map t_profit (tradingHistory (dm w')) =
           take 1000 (-0.23 # map t_profit (tradingHistory (dm w)))"
    unfolding w'_def x(3) by (simp add: take_map)
qed


lemma perf_own_log:
  assumes "set (map t_botId (tradingHistory (dm w))) \<subseteq> {X}"
  shows "totalTrades (getBotPerformance X w) = length (map t_profit (tradingHistory (dm w)))"
    and "profitableTrades (getBotPerformance X w) =
           length (filter (\<lambda>p. p > 0) (map t_profit (tradingHistory (dm w))))"
proof -
  have a: "filter (\<lambda>t. t_botId t = X) (tradingHistory (dm w)) = tradingHistory (dm w)"
    using assms by (auto simp: filter_id_conv)
  show "totalTrades (getBotPerformance X w) = length (map t_profit (tradingHistory (dm w)))"
    by (simp add: getBotPerformance_def Let_def a)
  show "profitableTrades (getBotPerformance X w) =
           length (filter (\<lambda>p. p > 0) (map t_profit (tradingHistory (dm w))))"
    by (simp add: getBotPerformance_def Let_def a filter_map comp_def)
qed

lemma perf_rate:
  "p_successRate (getBotPerformance X w) =
     (if totalTrades (getBotPerformance X w) > 0
      then real (profitableTrades (getBotPerformance X w))
           / real (totalTrades (getBotPerformance X w)) * 100
      else 0)"
  by (simp add: getBotPerformance_def Let_def)

lemma cappedWorld_fields:
  "bots (dm cappedWorld) = [riskyBot]"
  "set (map t_botId (tradingHistory (dm cappedWorld))) \<subseteq> {1}"
  "map t_profit (tradingHistory (dm cappedWorld)) = replicate 998 (-0.23) @ [1, 1]"
  "length (tradingHistory (dm cappedWorld)) = 1000"
  by (simp_all add: cappedWorld_def fullLog_def sampleTrade_def)

lemma ids_after: "set xs \<subseteq> {X} \<Longrightarrow> set (take n (X # xs)) \<subseteq> {X}"
  using set_take_subset [of n "X # xs"] by auto

lemma riskyBot_fields:
  "bid riskyBot = 1" "btype riskyBot = ''momentum''" "riskLevel riskyBot = 0.9"
  "successRate riskyBot = 0.2"
  by (simp_all add: riskyBot_def)

lemma single_bot: "map f bs = [x] \<Longrightarrow> \<exists>b. bs = [b] \<and> f b = x"
  by (cases bs) auto

text \<open>
  C4, the code at a full log. The log holds the bot's 1000 trades, two of them profitable,
  and the stored rate is 0.2. After two more losing trades of the trading cycle the
  stored rate is 0.1. The log now holds 1000 trades of the bot, none profitable (rate 0);
  over all 1002 trades of the bot the rate is \<open>2 / 1002 \<times> 100\<close>, about 0.1996. The stored
  rate is more than 0.01 away from both: \<open>executeBotTrade\<close> counts the 1000 logged trades
  plus the new one, and \<open>addTrade\<close> then evicts the oldest.
\<close>

theorem successRate_after_eviction:
  "length (tradingHistory (dm cappedWorld)) = 1000
   \<and> set (map t_botId (tradingHistory (dm cappedWorld))) \<subseteq> {1}
   \<and> length (filter (\<lambda>t. t_profit t > 0) (tradingHistory (dm cappedWorld))) = 2
   \<and> map successRate (bots (dm cappedWorld)) = [0.2]
   \<and> tradeEach [0, 0] (\<lambda>i. (sampleConditions, sampleDraws)) cappedWorld = Inr twoLosses
   \<and> map t_profit (take 2 (tradingHistory (dm twoLosses))) = [-0.23, -0.23]
   \<and> map successRate (bots (dm twoLosses)) = [0.1]
   \<and> totalTrades (getBotPerformance 1 twoLosses) = 1000
   \<and> profitableTrades (getBotPerformance 1 twoLosses) = 0
   \<and> p_successRate (getBotPerformance 1 twoLosses) = 0
   \<and> \<bar>0.1 - (2 / 1002 * 100 :: real)\<bar> > 0.01"
proof -
  define S where "S = (\<lambda>i::nat. (sampleConditions, sampleDraws))"
  define w1 where "w1 = projr (executeBotTrade riskyBot sampleConditions sampleDraws cappedWorld)"
  note c = cappedWorld_fields
  note i0 = c(2)
  have p0: "totalTrades (getBotPerformance 1 cappedWorld) = 1000"
    "profitableTrades (getBotPerformance 1 cappedWorld) = 2"
    unfolding perf_own_log [OF i0] c(3) by simp_all
  note s1 = losing_trade [OF c(1) riskyBot_fields(1,2,3), folded w1_def]
  have r1: "map successRate (bots (dm w1)) = [0.2]"
    unfolding s1(5) p0 using toFixed_samples(1) by simp
  have h1: "map t_profit (tradingHistory (dm w1)) = -0.23 # replicate 998 (-0.23) @ [1]"
    unfolding s1(7) c(3) by simp
  have i1: "set (map t_botId (tradingHistory (dm w1))) \<subseteq> {1}"
    unfolding s1(6) using i0 by (rule ids_after)
  have p1: "totalTrades (getBotPerformance 1 w1) = 1000"
    "profitableTrades (getBotPerformance 1 w1) = 1"
    unfolding perf_own_log [OF i1] h1 by simp_all
  obtain b1 where b1: "bots (dm w1) = [b1]" "bid b1 = 1"
    using single_bot [OF s1(2)] by blast
  have b1': "btype b1 = ''momentum''" "riskLevel b1 = 0.9"
    using s1(3,4) b1(1) by simp_all
  define w2 where "w2 = projr (executeBotTrade b1 sampleConditions sampleDraws w1)"
  note s2 = losing_trade [OF b1 b1', folded w2_def]
  have t: "tradeEach [0, 0] S cappedWorld = Inr w2"
    using s1(1) s2(1) by (simp add: S_def c(1) b1(1))
  then have w2: "twoLosses = w2"
    by (simp add: twoLosses_def S_def)
  have r2: "map successRate (bots (dm w2)) = [0.1]"
    unfolding s2(5) p1 using toFixed_samples(2) by simp
  have h2: "map t_profit (tradingHistory (dm w2)) = -0.23 # -0.23 # replicate 998 (-0.23)"
    unfolding s2(7) h1 by simp
  have i2: "set (map t_botId (tradingHistory (dm w2))) \<subseteq> {1}"
    unfolding s2(6) using i1 by (rule ids_after)
  have p2: "totalTrades (getBotPerformance 1 w2) = 1000"
    "profitableTrades (getBotPerformance 1 w2) = 0"
    unfolding perf_own_log [OF i2] h2 by simp_all
  have q2: "p_successRate (getBotPerformance 1 w2) = 0"
    unfolding perf_rate p2 by simp
  have n2: "map t_profit (take 2 (tradingHistory (dm w2))) = [-0.23, -0.23]"
    unfolding take_map [symmetric] h2 by (simp add: numeral_2_eq_2)
  note l0 = c(4)
  have f0: "length (filter (\<lambda>t. t_profit t > 0) (tradingHistory (dm cappedWorld))) = 2"
    using p0(2) by (simp add: getBotPerformance_def Let_def cappedWorld_def fullLog_def
        sampleTrade_def)
  have s0: "map successRate (bots (dm cappedWorld)) = [0.2]"
    by (simp add: c(1) riskyBot_fields)
  have a: "\<bar>0.1 - (2 / 1002 * 100 :: real)\<bar> > 0.01"
    by simp
  show ?thesis
    unfolding w2 using l0 c(2) f0 s0 t [unfolded S_def] n2 r2 p2 q2 a by blast
qed

text \<open>While the log has room (no eviction), the stored rates do follow the log: a run of
  the cycle's loop over any bots keeps every stored rate within 0.01 of the logged
  one.\<close>

lemma set_assignFirst_distinct:
  "distinct (map bid bs) \<Longrightarrow> b' \<in> set (assignFirst X f bs) \<Longrightarrow>
     (b' \<in> set bs \<and> bid b' \<noteq> X) \<or> (\<exists>b\<in>set bs. bid b = X \<and> b' = f b)"
proof (induction bs)
  case Nil
  then show ?case by simp
next
  case (Cons a bs)
  show ?case
  proof (cases "bid a = X")
    case True
    with Cons.prems show ?thesis by (auto simp: image_iff)
  next
    case False
    with Cons show ?thesis by auto
  qed
qed

lemma map_bid_assignFirst:
  "(\<And>b. bid (f b) = bid b) \<Longrightarrow> map bid (assignFirst X f bs) = map bid bs"
  by (induction bs) auto

lemma perf_other_bot:
  "tradingHistory (dm w') = t # tradingHistory (dm w) \<Longrightarrow> t_botId t \<noteq> X \<Longrightarrow>
     getBotPerformance X w' = getBotPerformance X w"
  by (simp add: getBotPerformance_def)

lemma perf_same_bot:
  "tradingHistory (dm w') = t # tradingHistory (dm w) \<Longrightarrow> t_botId t = X \<Longrightarrow>
     p_successRate (getBotPerformance X w') =
       real (profitableTrades (getBotPerformance X w) + (if t_profit t > 0 then 1 else 0))
       / real (totalTrades (getBotPerformance X w) + 1) * 100"
  by (simp add: getBotPerformance_def Let_def)

lemma executeBotTrade_keeps_rates:
  assumes d: "distinct (map bid (bots (dm w)))" and r: "ratesConsistent w"
    and m: "bt \<in> set (bots (dm w))" and l: "length (tradingHistory (dm w)) < 1000"
    and x: "executeBotTrade bt mc rnd w = Inr w'"
  shows "ratesConsistent w'" and "map bid (bots (dm w')) = map bid (bots (dm w))"
    and "length (tradingHistory (dm w')) \<le> Suc (length (tradingHistory (dm w)))"
proof -
  obtain dec where g: "generateTradeDecision bt mc rnd w = Inr dec"
    using x by (cases "generateTradeDecision bt mc rnd w") (auto simp: executeBotTrade_def)
  have all: "ratesConsistent w' \<and> map bid (bots (dm w')) = map bid (bots (dm w))
      \<and> length (tradingHistory (dm w')) \<le> Suc (length (tradingHistory (dm w)))"
  proof (cases "td_execute dec")
    case False
    with g x have "w' = w" by (simp add: executeBotTrade_def)
    with r show ?thesis by simp
  next
    case True
    have "find (\<lambda>b. bid b = bid bt) (bots (dm w)) \<noteq> None"
      using m by (auto simp: find_None_iff)
    then obtain b0 where f: "find (\<lambda>b. bid b = bid bt) (bots (dm w)) = Some b0" by auto
    note e = executeBotTrade_executed [OF g True f, unfolded x sum.sel]
    define pr where "pr = calculateTradeProfit bt dec (r_market rnd)"
    define rate where "rate = real (profitableTrades (getBotPerformance (bid bt) w)
                              + (if pr > 0 then 1 else 0))
                        / real (totalTrades (getBotPerformance (bid bt) w) + 1) * 100"
    define t where "t = \<lparr>t_botId = bid bt, t_botName = name bt, t_symbol = td_symbol dec,
               t_type = td_type dec, t_amount = td_amount dec, t_profit = pr,
               t_success = (pr > 0), t_id = clock w, t_timestamp = clock w\<rparr>"
    have h: "tradingHistory (dm w') = t # tradingHistory (dm w)"
      using e(3) l by (simp add: t_def pr_def)
    have ids: "map bid (bots (dm w')) = map bid (bots (dm w))"
      unfolding e(2) by (rule map_bid_assignFirst) simp
    have "\<bar>successRate b' - p_successRate (getBotPerformance (bid b') w')\<bar> \<le> 0.01"
      if b': "b' \<in> set (bots (dm w'))" for b'
    proof -
      from set_assignFirst_distinct [OF d b' [unfolded e(2)]]
      consider (other) "b' \<in> set (bots (dm w))" "bid b' \<noteq> bid bt"
        | (same) b where "b \<in> set (bots (dm w))" "bid b = bid bt"
            "successRate b' = toFixed 2 rate" "bid b' = bid b"
        by (auto simp: rate_def pr_def)
      then show ?thesis
      proof cases
        case other
        then have "getBotPerformance (bid b') w' = getBotPerformance (bid b') w"
          using perf_other_bot [OF h, of "bid b'"] by (simp add: t_def)
        with r other(1) show ?thesis by (simp add: ratesConsistent_def)
      next
        case same
        have "p_successRate (getBotPerformance (bid b') w') = rate"
          using perf_same_bot [OF h, of "bid bt"] same(2,4) by (simp add: t_def rate_def)
        then show ?thesis
          using toFixed_close [of rate] same(3) by simp
      qed
    qed
    then show ?thesis
      using ids h by (simp add: ratesConsistent_def)
  qed
  from all show "ratesConsistent w'" "map bid (bots (dm w')) = map bid (bots (dm w))"
    "length (tradingHistory (dm w')) \<le> Suc (length (tradingHistory (dm w)))"
    by blast+
qed

lemma tradeEach_rates_below_cap:
  "distinct (map bid (bots (dm w))) \<Longrightarrow> ratesConsistent w \<Longrightarrow>
   \<forall>i\<in>set is. i < length (bots (dm w)) \<Longrightarrow>
   length (tradingHistory (dm w)) + length is \<le> 1000 \<Longrightarrow>
   tradeEach is samples w = Inr w' \<Longrightarrow> ratesConsistent w'"
proof (induction "is" arbitrary: w)
  case Nil
  then show ?case by simp
next
  case (Cons i "is")
  obtain w1 where
    x: "executeBotTrade (bots (dm w) ! i) (fst (samples i)) (snd (samples i)) w = Inr w1"
    and rest: "tradeEach is samples w1 = Inr w'"
    using Cons.prems(5) by (auto split: sum.splits)
  have m: "bots (dm w) ! i \<in> set (bots (dm w))" using Cons.prems(3) by simp
  have l: "length (tradingHistory (dm w)) < 1000" using Cons.prems(4) by simp
  note k = executeBotTrade_keeps_rates [OF Cons.prems(1,2) m l x]
  have "distinct (map bid (bots (dm w1)))" using k(2) Cons.prems(1) by simp
  moreover have "\<forall>i\<in>set is. i < length (bots (dm w1))"
    using Cons.prems(3) arg_cong [OF k(2), of length] by simp
  moreover have "length (tradingHistory (dm w1)) + length is \<le> 1000"
    using k(3) Cons.prems(4) by simp
  ultimately show ?case
    using Cons.IH [OF _ k(1) _ _ rest] by blast
qed

end
